theory Spec2Isabelle
  imports Main "HOL-Library.Monad_Syntax"
begin

section \<open>Entities, values and emitted instructions\<close>

text \<open>
  The translated file is \<^verbatim>\<open>lib/IRGen/GenThunk.cpp\<close>: the generator of method dispatch
  thunks and of the method lookup function of a resilient class. The generator is a
  program that builds IR; the embedding keeps its control flow and records what it builds:
  every \<^verbatim>\<open>llvm::Value*\<close> is a symbolic term naming the primitive that produced it, and
  every call of an IR-building primitive appends one instruction to the builder of the
  function under construction.
\<close>

type_synonym SILDeclRef = nat
type_synonym ClassDecl = nat
type_synonym SILFunction = nat
type_synonym SILType = nat

datatype ForDefinition_t = NotForDefinition | ForDefinition

datatype LinkEntity =
    forDispatchThunk SILDeclRef
  | forMethodLookupFunction ClassDecl
  | forMethodDescriptor SILDeclRef
  | forTypeContextDescriptor ClassDecl
  | forSILFunction SILFunction
  | forAsyncFunctionPointer LinkEntity

text \<open>The fields of an async context frame that \<^verbatim>\<open>AsyncContextLayout\<close> gives access to.\<close>

datatype ElementLayout =
    LocalContextLayout
  | SelfMetadataLayout
  | SelfWitnessTableLayout
  | ErrorLayout
  | IndirectReturnLayout nat
  | ArgumentLayout nat
  | BindingsLayout

datatype RuntimeFn = LookUpClassMethodFn

datatype Value =
    Argument nat
  | AsyncContext
  | Project ElementLayout Value
  | Load Value
  | LoadAsTake SILType Value
  | MapFromNative SILType "Value list"
  | WitnessMethodValue Value SILDeclRef
  | HeapMetadataRefForHeapObject Value
  | VirtualMethodValue Value SILDeclRef
  | CoroutineResult
  | CallResult nat
  | GlobalAddr LinkEntity
  | FunctionAddr SILFunction
  | PointerAuthSign Value nat nat
  | BitCast Value
  | ICmpEQ Value Value
  | CallRuntime RuntimeFn "Value list"

type_synonym Explosion = "Value list"

record WitnessMetadata =
  SelfMetadata :: "Value option"
  SelfWitnessTable :: "Value option"

record Callee =
  calleeFunction :: Value
  calleeSelf :: Value

datatype Instr =
    SetupAsync
  | AsyncFunctionEntry LinkEntity
  | EmitCastTo
  | ProjectField ElementLayout
  | CreateLoad Value
  | EmitLoadAsTake SILType Value
  | EmitMapFromNative SILType "Value list"
  | SaveBindings Value "Value list"
  | EmitWitnessMethodValue Value SILDeclRef
  | EmitHeapMetadataRef Value
  | EmitVirtualMethodValue Value SILDeclRef
  | CallBegin Callee
  | SetArgs "Value list" WitnessMetadata
  | EmitCoroutineAsOrdinaryFunction
  | EmitToMemory Value
  | EmitToExplosion
  | CallEnd
  | CreateRet Value
  | CreateRetVoid
  | EmitScalarReturn "Value list"
  | EmitAsyncReturn
  | EmitCoroutineOrAsyncExit
  | CreateCondBr Value "Instr list"

section \<open>Explosions\<close>

text \<open>
  An \<^verbatim>\<open>Explosion\<close> is the sequence of values not yet claimed. The operations the thunk
  uses are modelled with their assertions: claiming from an exhausted explosion is
  \<open>None\<close>.
\<close>

definition takeLast :: "Explosion \<Rightarrow> (Value \<times> Explosion) option" where
  "takeLast e = (if e = [] then None else Some (last e, butlast e))"

definition claimNext :: "Explosion \<Rightarrow> (Value \<times> Explosion) option" where
  "claimNext e = (case e of [] \<Rightarrow> None | v # r \<Rightarrow> Some (v, r))"

definition transferInto :: "Explosion \<Rightarrow> Explosion \<Rightarrow> nat \<Rightarrow> (Explosion \<times> Explosion) option" where
  "transferInto src dst n =
     (if n \<le> length src then Some (drop n src, dst @ take n src) else None)"

definition claimAll :: "Explosion \<Rightarrow> Explosion \<times> Explosion" where
  "claimAll e = (e, [])"

section \<open>What the thunk reads from the method reference\<close>

record NativeConventionSchema =
  requiresIndirect :: bool
  schemaEmpty :: bool
  schemaSize :: nat

record SILParameterInfo =
  paramType :: SILType
  isObject :: bool
  nativeParameterValueSchema :: NativeConventionSchema

text \<open>
  \<^verbatim>\<open>AsyncContextLayout\<close> is computed outside the translated file. \<open>bindingsSave\<close> is what
  \<^verbatim>\<open>getBindings().save(IGF, addr, params)\<close> leaves in \<^verbatim>\<open>params\<close>; it is a parameter.
\<close>

record AsyncContextLayout =
  hasLocalContext :: bool
  hasTrailingWitnesses :: bool
  getIndirectReturnCount :: nat
  getArgumentCount :: nat
  hasBindings :: bool
  getSize :: nat
  bindingsSave :: "Value \<Rightarrow> Explosion \<Rightarrow> Explosion"

text \<open>
  The function type of a method reference (\<^verbatim>\<open>origTy\<close>) with the answers of the layout
  service the thunk asks for: the native schema of the direct result, the number of
  values in the result's explosion, whether the storage type of \<^verbatim>\<open>self\<close> is a metatype,
  and the number of LLVM arguments of the thunk's signature.
\<close>

record CanSILFunctionType =
  tyIsAsync :: bool
  tyIsCoroutine :: bool
  hasErrorResult :: bool
  getParameters :: "SILParameterInfo list"
  getNumIndirectSILResults :: nat
  nativeReturnValueSchema :: NativeConventionSchema
  resultExplosionSize :: nat
  selfIsMetatype :: bool
  numArguments :: nat
  getAsyncContextLayout :: AsyncContextLayout

section \<open>The module\<close>

text \<open>
  \<^verbatim>\<open>GlobalFuncs\<close> and \<^verbatim>\<open>GlobalVars\<close> map a link entity to the function or variable
  created for it. A pointer to an \<^verbatim>\<open>llvm::Function\<close> is its index in \<open>Functions\<close>; a
  function is a declaration as long as it has no body. \<open>fnLinkage\<close> is the
  \<^verbatim>\<open>ForDefinition_t\<close> its linkage was last computed for, \<open>fnSignature\<close> the number of
  LLVM arguments of its signature.
\<close>

record Function =
  fnName :: LinkEntity
  fnLinkage :: ForDefinition_t
  fnSignature :: nat
  fnBody :: "Instr list option"

definition isDeclaration :: "Function \<Rightarrow> bool" where
  "isDeclaration f = (fnBody f = None)"

record ConstantInit =
  initFunction :: nat
  initSize :: nat

record GlobalVariable =
  varName :: LinkEntity
  varInitializer :: "ConstantInit option"
  varConstant :: bool

datatype ScannerEvent =
    NonoverriddenMethod SILDeclRef
  | ReifiedMethod SILDeclRef
  | ResilientSuperclass
  | StartOfImmediateMembers ClassDecl
  | OtherMember

record PointerAuthSchema =
  getKey :: nat

text \<open>
  Besides its two tables the module carries the answers of the services the file
  consults: the lowered function type of a method reference, whether its declaring
  context is a protocol, whether its linkage is publicly visible, the SIL vtable of a
  class, the callbacks \<^verbatim>\<open>ClassMetadataScanner::layout()\<close> makes for a class in table
  order, the pointer authentication schema for class methods and its discriminators.
\<close>

record IRGenModule =
  Types :: "SILDeclRef \<Rightarrow> CanSILFunctionType"
  declContextIsProtocol :: "SILDeclRef \<Rightarrow> bool"
  hasPublicVisibility :: "SILDeclRef \<Rightarrow> bool"
  getOverriddenWitnessTableEntry :: "SILDeclRef \<Rightarrow> SILDeclRef"
  VTable :: "ClassDecl \<Rightarrow> SILDeclRef \<Rightarrow> SILFunction option"
  scannerLayout :: "ClassDecl \<Rightarrow> ScannerEvent list"
  isLazilyReemittingNominalTypeDescriptor :: "ClassDecl \<Rightarrow> bool"
  SwiftClassMethods :: "PointerAuthSchema option"
  getOtherDiscriminator :: "PointerAuthSchema \<Rightarrow> SILDeclRef \<Rightarrow> nat"
  GlobalFuncs :: "LinkEntity \<Rightarrow> nat option"
  Functions :: "Function list"
  GlobalVars :: "LinkEntity \<Rightarrow> nat option"
  Variables :: "GlobalVariable list"

definition createFunction ::
  "LinkEntity \<Rightarrow> ForDefinition_t \<Rightarrow> nat \<Rightarrow> IRGenModule \<Rightarrow> nat \<times> IRGenModule" where
  "createFunction entity forDefinition signature m =
     (length (Functions m),
      m\<lparr>Functions := Functions m @
           [\<lparr>fnName = entity, fnLinkage = forDefinition, fnSignature = signature,
             fnBody = None\<rparr>]\<rparr>)"

definition updateLinkageForDefinition :: "nat \<Rightarrow> IRGenModule \<Rightarrow> IRGenModule" where
  "updateLinkageForDefinition entry m =
     m\<lparr>Functions := (Functions m)[entry := (Functions m ! entry)\<lparr>fnLinkage := ForDefinition\<rparr>]\<rparr>"

text \<open>\<^verbatim>\<open>IRGenModule::getAddrOfDispatchThunk\<close> (lines 48-66).\<close>

definition getAddrOfDispatchThunk ::
  "SILDeclRef \<Rightarrow> ForDefinition_t \<Rightarrow> IRGenModule \<Rightarrow> nat \<times> IRGenModule" where
  "getAddrOfDispatchThunk declRef forDefinition m =
     (let entity = forDispatchThunk declRef in
      case GlobalFuncs m entity of
        Some entry \<Rightarrow>
          (entry,
           if forDefinition = ForDefinition then updateLinkageForDefinition entry m else m)
      | None \<Rightarrow>
          (let signature = numArguments (Types m declRef);
               (entry, m') = createFunction entity forDefinition signature m
           in (entry, m'\<lparr>GlobalFuncs := (GlobalFuncs m')(entity \<mapsto> entry)\<rparr>)))"

text \<open>
  \<^verbatim>\<open>getAddrOfLLVMVariable\<close> lives outside the translated file; it is the same
  get-or-create on \<^verbatim>\<open>GlobalVars\<close>, and installs the initializer when it is given one.
\<close>

definition getAddrOfLLVMVariable ::
  "LinkEntity \<Rightarrow> ConstantInit option \<Rightarrow> IRGenModule \<Rightarrow> nat \<times> IRGenModule" where
  "getAddrOfLLVMVariable entity init m =
     (case GlobalVars m entity of
        Some var \<Rightarrow>
          (var,
           case init of
             None \<Rightarrow> m
           | Some i \<Rightarrow>
               m\<lparr>Variables := (Variables m)[var := (Variables m ! var)\<lparr>varInitializer := Some i\<rparr>]\<rparr>)
      | None \<Rightarrow>
          (length (Variables m),
           m\<lparr>GlobalVars := (GlobalVars m)(entity \<mapsto> length (Variables m)),
             Variables := Variables m @
               [\<lparr>varName = entity, varInitializer = init, varConstant = False\<rparr>]\<rparr>))"

definition setTrueConstGlobal :: "nat \<Rightarrow> IRGenModule \<Rightarrow> IRGenModule" where
  "setTrueConstGlobal var m =
     m\<lparr>Variables := (Variables m)[var := (Variables m ! var)\<lparr>varConstant := True\<rparr>]\<rparr>"

text \<open>\<^verbatim>\<open>IRGenModule::getAddrOfAsyncFunctionPointer(LinkEntity)\<close> (lines 364-369).\<close>

definition getAddrOfAsyncFunctionPointer :: "LinkEntity \<Rightarrow> IRGenModule \<Rightarrow> nat \<times> IRGenModule" where
  "getAddrOfAsyncFunctionPointer entity m =
     getAddrOfLLVMVariable (forAsyncFunctionPointer entity) None m"

text \<open>\<^verbatim>\<open>IRGenModule::defineAsyncFunctionPointer\<close> (lines 378-385).\<close>

definition defineAsyncFunctionPointer ::
  "LinkEntity \<Rightarrow> ConstantInit \<Rightarrow> IRGenModule \<Rightarrow> nat \<times> IRGenModule" where
  "defineAsyncFunctionPointer entity init m =
     (let asyncEntity = forAsyncFunctionPointer entity;
          (var, m') = getAddrOfLLVMVariable asyncEntity (Some init) m
      in (var, setTrueConstGlobal var m'))"

text \<open>
  Modelled from the spec: \<^verbatim>\<open>emitAsyncFunctionPointer\<close> is called by the thunk but defined
  outside the translated file. The spec has it publish a constant descriptor record
  advertising the required frame size; the record names the function it belongs to and
  is defined through \<^verbatim>\<open>defineAsyncFunctionPointer\<close>.
\<close>

definition emitAsyncFunctionPointer ::
  "nat \<Rightarrow> LinkEntity \<Rightarrow> nat \<Rightarrow> IRGenModule \<Rightarrow> IRGenModule" where
  "emitAsyncFunctionPointer fn entity sz m =
     snd (defineAsyncFunctionPointer entity \<lparr>initFunction = fn, initSize = sz\<rparr> m)"

section \<open>The function under construction and the thunk generator\<close>

record IRGenFunction =
  IGM :: IRGenModule
  CurFn :: nat
  Builder :: "Instr list"
  CallerErrorResultSlot :: "Value option"

definition newIRGenFunction :: "IRGenModule \<Rightarrow> nat \<Rightarrow> IRGenFunction" where
  "newIRGenFunction m f = \<lparr>IGM = m, CurFn = f, Builder = [], CallerErrorResultSlot = None\<rparr>"

definition collectParameters :: "IRGenFunction \<Rightarrow> Explosion" where
  "collectParameters igf = map Argument [0 ..< fnSignature (Functions (IGM igf) ! CurFn igf)]"

record IRGenThunk =
  IGF :: IRGenFunction
  declRef :: SILDeclRef
  origTy :: CanSILFunctionType
  isAsync :: bool
  isCoroutine :: bool
  isWitnessMethod :: bool
  asyncLayout :: "AsyncContextLayout option"
  indirectReturnSlot :: "Value option"
  selfValue :: "Value option"
  errorResult :: "Value option"
  witnessMetadata :: WitnessMetadata
  params :: Explosion

text \<open>The constructor \<^verbatim>\<open>IRGenThunk::IRGenThunk\<close> (lines 100-122).\<close>

definition newIRGenThunk :: "IRGenFunction \<Rightarrow> SILDeclRef \<Rightarrow> IRGenThunk" where
  "newIRGenThunk igf ref =
     (let ty = Types (IGM igf) ref in
      \<lparr>IGF = igf, declRef = ref, origTy = ty,
       isAsync = tyIsAsync ty, isCoroutine = tyIsCoroutine ty,
       isWitnessMethod = declContextIsProtocol (IGM igf) ref,
       asyncLayout = (if tyIsAsync ty then Some (getAsyncContextLayout ty) else None),
       indirectReturnSlot = None, selfValue = None, errorResult = None,
       witnessMetadata = \<lparr>SelfMetadata = None, SelfWitnessTable = None\<rparr>,
       params = []\<rparr>)"

definition build :: "Instr list \<Rightarrow> IRGenThunk \<Rightarrow> IRGenThunk" where
  "build instrs t = t\<lparr>IGF := (IGF t)\<lparr>Builder := Builder (IGF t) @ instrs\<rparr>\<rparr>"

definition setCallerErrorResultSlot :: "Value \<Rightarrow> IRGenThunk \<Rightarrow> IRGenThunk" where
  "setCallerErrorResultSlot v t = t\<lparr>IGF := (IGF t)\<lparr>CallerErrorResultSlot := Some v\<rparr>\<rparr>"

definition addParams :: "Explosion \<Rightarrow> IRGenThunk \<Rightarrow> IRGenThunk" where
  "addParams vs t = t\<lparr>params := params t @ vs\<rparr>"

text \<open>
  One iteration of the parameter loop of \<^verbatim>\<open>prepareArguments\<close> (lines 209-242). The
  explosion a layout helper yields (\<^verbatim>\<open>loadAsTake\<close>, \<^verbatim>\<open>mapFromNative\<close>) is one symbolic
  value naming the helper and what it was given.
\<close>

definition prepareParameter ::
  "SILParameterInfo \<Rightarrow> Explosion \<times> IRGenThunk \<Rightarrow> (Explosion \<times> IRGenThunk) option" where
  "prepareParameter param st =
     (let (original, t) = st in
      if isObject param then
        (let nativeSchema = nativeParameterValueSchema param;
             sz = schemaSize nativeSchema
         in if requiresIndirect nativeSchema then
              do {
                (a, original) \<leftarrow> claimNext original;
                Some (original,
                      addParams [LoadAsTake (paramType param) a]
                        (build [EmitLoadAsTake (paramType param) a] t))
              }
            else if \<not> schemaEmpty nativeSchema then
              do {
                (original, paramExplosion) \<leftarrow> transferInto original [] sz;
                Some (original,
                      addParams [MapFromNative (paramType param) paramExplosion]
                        (build [EmitMapFromNative (paramType param) paramExplosion] t))
              }
            else Some (original, t))
      else
        do {
          (a, original) \<leftarrow> claimNext original;
          Some (original, addParams [a] t)
        })"

fun prepareParameters ::
  "SILParameterInfo list \<Rightarrow> Explosion \<times> IRGenThunk \<Rightarrow> (Explosion \<times> IRGenThunk) option" where
  "prepareParameters [] st = Some st"
| "prepareParameters (param # rest) st =
     do { st' \<leftarrow> prepareParameter param st; prepareParameters rest st' }"

text \<open>A field of the async context: project its address, then load it.\<close>

definition loadContextField :: "ElementLayout \<Rightarrow> IRGenThunk \<Rightarrow> Value \<times> IRGenThunk" where
  "loadContextField layout t =
     (Load (Project layout AsyncContext),
      build [ProjectField layout, CreateLoad (Project layout AsyncContext)] t)"

fun loadFieldsIntoParams :: "(nat \<Rightarrow> ElementLayout) \<Rightarrow> nat list \<Rightarrow> IRGenThunk \<Rightarrow> IRGenThunk" where
  "loadFieldsIntoParams layout [] t = t"
| "loadFieldsIntoParams layout (i # rest) t =
     (let (v, t) = loadContextField (layout i) t
      in loadFieldsIntoParams layout rest (addParams [v] t))"

text \<open>
  \<^verbatim>\<open>IRGenThunk::prepareArguments\<close> (lines 128-248), asynchronous branch. Its steps, in
  the order of the source: the receiver (lines 132-137), the witness metadata (lines
  139-153), the error slot (lines 155-159), the indirect returns and the arguments (lines
  161-171), the bindings (lines 173-177).
\<close>

definition loadLocalContext :: "AsyncContextLayout \<Rightarrow> IRGenThunk \<Rightarrow> IRGenThunk option" where
  "loadLocalContext layout t =
     (if \<not> hasLocalContext layout then None
      else
        (let t = build [EmitCastTo] t;
             (v, t) = loadContextField LocalContextLayout t
         in Some (t\<lparr>selfValue := Some v\<rparr>)))"

definition loadWitnessMetadata :: "AsyncContextLayout \<Rightarrow> IRGenThunk \<Rightarrow> IRGenThunk option" where
  "loadWitnessMetadata layout t =
     (if isWitnessMethod t then
        (if \<not> hasTrailingWitnesses layout then None
         else
           (let t = build [EmitCastTo] t;
                (md, t) = loadContextField SelfMetadataLayout t;
                t = t\<lparr>witnessMetadata := (witnessMetadata t)\<lparr>SelfMetadata := Some md\<rparr>\<rparr>;
                (wt, t) = loadContextField SelfWitnessTableLayout t
            in Some (t\<lparr>witnessMetadata := (witnessMetadata t)\<lparr>SelfWitnessTable := Some wt\<rparr>\<rparr>)))
      else Some t)"

definition projectErrorSlot :: "IRGenThunk \<Rightarrow> IRGenThunk" where
  "projectErrorSlot t =
     (if hasErrorResult (origTy t) then
        setCallerErrorResultSlot (Project ErrorLayout AsyncContext)
          (build [ProjectField ErrorLayout] t)
      else t)"

definition saveBindings :: "AsyncContextLayout \<Rightarrow> IRGenThunk \<Rightarrow> IRGenThunk" where
  "saveBindings layout t =
     (if hasBindings layout then
        (build [ProjectField BindingsLayout,
                SaveBindings (Project BindingsLayout AsyncContext) (params t)] t)
          \<lparr>params := bindingsSave layout (Project BindingsLayout AsyncContext) (params t)\<rparr>
      else t)"

definition prepareArgumentsAsync :: "IRGenThunk \<Rightarrow> IRGenThunk option" where
  "prepareArgumentsAsync t =
     (if isCoroutine t then None
      else do {
        layout \<leftarrow> asyncLayout t;
        t \<leftarrow> loadLocalContext layout t;
        t \<leftarrow> loadWitnessMetadata layout t;
        let t = projectErrorSlot t;
        let t = loadFieldsIntoParams IndirectReturnLayout [0 ..< getIndirectReturnCount layout] t;
        let t = loadFieldsIntoParams ArgumentLayout [0 ..< getArgumentCount layout] t;
        Some (saveBindings layout t)
      })"

text \<open>
  The other branch. Its steps, in the order of the source: the witness metadata (lines
  181-184), the error slot (lines 186-189), the coroutine buffer (lines 191-193), the
  receiver (line 195), the indirect return slot (lines 197-204), the indirect results
  (line 206), the parameters (lines 209-242) and what is left (line 246). Each step
  takes and returns the explosion \<^verbatim>\<open>original\<close> and the thunk.
\<close>

definition takeWitnessMetadata :: "Explosion \<times> IRGenThunk \<Rightarrow> (Explosion \<times> IRGenThunk) option" where
  "takeWitnessMetadata st =
     (let (original, t) = st in
      if isWitnessMethod t then do {
        (wt, original) \<leftarrow> takeLast original;
        let t = t\<lparr>witnessMetadata := (witnessMetadata t)\<lparr>SelfWitnessTable := Some wt\<rparr>\<rparr>;
        (md, original) \<leftarrow> takeLast original;
        Some (original, t\<lparr>witnessMetadata := (witnessMetadata t)\<lparr>SelfMetadata := Some md\<rparr>\<rparr>)
      } else Some (original, t))"

definition takeErrorResult :: "Explosion \<times> IRGenThunk \<Rightarrow> (Explosion \<times> IRGenThunk) option" where
  "takeErrorResult st =
     (let (original, t) = st in
      if hasErrorResult (origTy t) then do {
        (e, original) \<leftarrow> takeLast original;
        Some (original, setCallerErrorResultSlot e (t\<lparr>errorResult := Some e\<rparr>))
      } else Some (original, t))"

definition transferCoroutineBuffer :: "Explosion \<times> IRGenThunk \<Rightarrow> (Explosion \<times> IRGenThunk) option" where
  "transferCoroutineBuffer st =
     (let (original, t) = st in
      if isCoroutine t then do {
        (original, ps) \<leftarrow> transferInto original (params t) 1;
        Some (original, t\<lparr>params := ps\<rparr>)
      } else Some (original, t))"

definition takeSelf :: "Explosion \<times> IRGenThunk \<Rightarrow> (Explosion \<times> IRGenThunk) option" where
  "takeSelf st =
     (let (original, t) = st in do {
        (self, original) \<leftarrow> takeLast original;
        Some (original, t\<lparr>selfValue := Some self\<rparr>)
      })"

definition claimIndirectReturnSlot :: "Explosion \<times> IRGenThunk \<Rightarrow> (Explosion \<times> IRGenThunk) option" where
  "claimIndirectReturnSlot st =
     (let (original, t) = st in
      if requiresIndirect (nativeReturnValueSchema (origTy t)) then do {
        (a, original) \<leftarrow> claimNext original;
        Some (original, t\<lparr>indirectReturnSlot := Some a\<rparr>)
      } else Some (original, t))"

definition transferIndirectResults :: "Explosion \<times> IRGenThunk \<Rightarrow> (Explosion \<times> IRGenThunk) option" where
  "transferIndirectResults st =
     (let (original, t) = st in do {
        (original, ps) \<leftarrow> transferInto original (params t) (getNumIndirectSILResults (origTy t));
        Some (original, t\<lparr>params := ps\<rparr>)
      })"

definition passAlong :: "Explosion \<times> IRGenThunk \<Rightarrow> IRGenThunk" where
  "passAlong st =
     (let (original, t) = st;
          (rest, original) = claimAll original
      in addParams rest t)"

definition prepareArgumentsSync :: "IRGenThunk \<Rightarrow> IRGenThunk option" where
  "prepareArgumentsSync t =
     do {
       st \<leftarrow> takeWitnessMetadata (collectParameters (IGF t), t);
       st \<leftarrow> takeErrorResult st;
       st \<leftarrow> transferCoroutineBuffer st;
       st \<leftarrow> takeSelf st;
       st \<leftarrow> claimIndirectReturnSlot st;
       st \<leftarrow> transferIndirectResults st;
       st \<leftarrow> prepareParameters (butlast (getParameters (origTy (snd st)))) st;
       Some (passAlong st)
     }"

definition prepareArguments :: "IRGenThunk \<Rightarrow> IRGenThunk option" where
  "prepareArguments t = (if isAsync t then prepareArgumentsAsync t else prepareArgumentsSync t)"

text \<open>
  \<^verbatim>\<open>IRGenThunk::lookupMethod\<close> (lines 250-281). A null \<^verbatim>\<open>llvm::Value*\<close> handed to a
  helper is \<open>None\<close>.
\<close>

definition lookupMethod :: "IRGenThunk \<Rightarrow> (Callee \<times> IRGenThunk) option" where
  "lookupMethod t =
     (if isWitnessMethod t then
        do {
          wtable \<leftarrow> SelfWitnessTable (witnessMetadata t);
          let witness = WitnessMethodValue wtable (declRef t);
          let t = build [EmitWitnessMethodValue wtable (declRef t)] t;
          self \<leftarrow> selfValue t;
          Some (\<lparr>calleeFunction = witness, calleeSelf = self\<rparr>, t)
        }
      else
        do {
          self \<leftarrow> selfValue t;
          let (metadata, t) =
            (if selfIsMetatype (origTy t) then (self, t)
             else (HeapMetadataRefForHeapObject self, build [EmitHeapMetadataRef self] t));
          let method = VirtualMethodValue metadata (declRef t);
          let t = build [EmitVirtualMethodValue metadata (declRef t)] t;
          Some (\<lparr>calleeFunction = method, calleeSelf = self\<rparr>, t)
        })"

text \<open>The async entry of \<^verbatim>\<open>IRGenThunk::emit\<close> (lines 286-293).\<close>

definition emitAsyncEntry :: "IRGenThunk \<Rightarrow> IRGenThunk option" where
  "emitAsyncEntry t =
     (if isAsync t then
        do {
          layout \<leftarrow> asyncLayout t;
          let entity = forDispatchThunk (declRef t);
          let t = build [SetupAsync, AsyncFunctionEntry entity] t;
          Some (t\<lparr>IGF := (IGF t)\<lparr>IGM :=
                  emitAsyncFunctionPointer (CurFn (IGF t)) entity (getSize layout) (IGM (IGF t))\<rparr>\<rparr>)
        }
      else Some t)"

text \<open>The call and the return of \<^verbatim>\<open>IRGenThunk::emit\<close> (lines 297-351).\<close>

definition emitCallAndReturn :: "IRGenThunk \<Rightarrow> IRGenThunk option" where
  "emitCallAndReturn t =
     do {
       (callee, t) \<leftarrow> lookupMethod t;
       let t = build [CallBegin callee] t;
       let t = build [SetArgs (params t) (witnessMetadata t)] t;
       if isCoroutine t then
         (if isAsync t then None
          else Some (build [EmitCoroutineAsOrdinaryFunction, CallEnd, CreateRet CoroutineResult] t))
       else do {
         (result, t) \<leftarrow>
           (if requiresIndirect (nativeReturnValueSchema (origTy t)) then do {
              indirectReturnAddr \<leftarrow> indirectReturnSlot t;
              Some ([], build [EmitToMemory indirectReturnAddr] t)
            } else
              Some (map CallResult [0 ..< resultExplosionSize (origTy t)],
                    build [EmitToExplosion] t));
         let t = build [CallEnd] t;
         if isAsync t then Some (build [EmitAsyncReturn, EmitCoroutineOrAsyncExit] t)
         else if result = [] then Some (build [CreateRetVoid] t)
         else Some (build [EmitScalarReturn result] t)
       }
     }"

text \<open>\<^verbatim>\<open>IRGenThunk::emit\<close> (lines 283-352).\<close>

definition emit :: "IRGenThunk \<Rightarrow> IRGenThunk option" where
  "emit t =
     do {
       t \<leftarrow> emitAsyncEntry t;
       t \<leftarrow> prepareArguments t;
       emitCallAndReturn t
     }"

text \<open>
  \<^verbatim>\<open>IRGenModule::emitDispatchThunk\<close> (lines 354-362). The instructions built for the
  function become its body.
\<close>

definition emitDispatchThunk :: "SILDeclRef \<Rightarrow> IRGenModule \<Rightarrow> IRGenModule option" where
  "emitDispatchThunk ref m =
     (let (f, m) = getAddrOfDispatchThunk ref ForDefinition m in
      if \<not> isDeclaration (Functions m ! f) then Some m
      else do {
        t \<leftarrow> emit (newIRGenThunk (newIRGenFunction m f) ref);
        let m = IGM (IGF t);
        Some (m\<lparr>Functions := (Functions m)[f := (Functions m ! f)\<lparr>fnBody := Some (Builder (IGF t))\<rparr>]\<rparr>)
      })"

section \<open>The method lookup function of a resilient class\<close>

text \<open>
  \<^verbatim>\<open>IRGenModule::getAddrOfMethodDescriptor\<close> (lines 405-414): get or create the
  variable of the method descriptor. The constant returned is the address of that
  variable; the address of a global is named by the link entity of the global.
\<close>

definition getAddrOfMethodDescriptor ::
  "SILDeclRef \<Rightarrow> ForDefinition_t \<Rightarrow> IRGenModule \<Rightarrow> (Value \<times> IRGenModule) option" where
  "getAddrOfMethodDescriptor ref forDefinition m =
     (if forDefinition \<noteq> NotForDefinition then None
      else if getOverriddenWitnessTableEntry m ref \<noteq> ref then None
      else
        (let entity = forMethodDescriptor ref;
             (var, m') = getAddrOfLLVMVariable entity None m
         in Some (GlobalAddr (varName (Variables m' ! var)), m')))"

text \<open>
  \<^verbatim>\<open>IRGenModule::getAddrOfMethodLookupFunction\<close> (lines 416-438). The signature of the
  function has two arguments, the metadata and the method descriptor. The note of the
  use of the type metadata feeds the queue of lazy emissions, which the module of the
  model does not carry.
\<close>

definition getAddrOfMethodLookupFunction ::
  "ClassDecl \<Rightarrow> ForDefinition_t \<Rightarrow> IRGenModule \<Rightarrow> nat \<times> IRGenModule" where
  "getAddrOfMethodLookupFunction classDecl forDefinition m =
     (let entity = forMethodLookupFunction classDecl in
      case GlobalFuncs m entity of
        Some entry \<Rightarrow>
          (entry,
           if forDefinition = ForDefinition then updateLinkageForDefinition entry m else m)
      | None \<Rightarrow>
          (let (entry, m') = createFunction entity forDefinition 2 m
           in (entry, m'\<lparr>GlobalFuncs := (GlobalFuncs m')(entity \<mapsto> entry)\<rparr>)))"

definition buildF :: "Instr list \<Rightarrow> IRGenFunction \<Rightarrow> IRGenFunction" where
  "buildF instrs igf = igf\<lparr>Builder := Builder igf @ instrs\<rparr>"

text \<open>
  \<^verbatim>\<open>LookUpNonoverriddenMethods::noteNonoverriddenMethod\<close> (lines 470-506). The scanner
  holds the module by reference: the descriptor is declared in the module of the function
  under construction. The conditional branch carries its true block; the instructions
  built after it are the false block. \<^verbatim>\<open>getAddrOfSILFunction\<close> lives outside the
  translated file; the model keeps the address it returns.
\<close>

definition noteNonoverriddenMethod ::
  "ClassDecl \<Rightarrow> Value \<Rightarrow> SILDeclRef \<Rightarrow> IRGenFunction \<Rightarrow> IRGenFunction option" where
  "noteNonoverriddenMethod classDecl methodArg method igf =
     (if \<not> hasPublicVisibility (IGM igf) method then Some igf
      else do {
        (methodDesc, m) \<leftarrow> getAddrOfMethodDescriptor method NotForDefinition (IGM igf);
        let igf = igf\<lparr>IGM := m\<rparr>;
        let isMethod = ICmpEQ methodArg methodDesc;
        implementation \<leftarrow> VTable (IGM igf) classDecl method;
        let impl = FunctionAddr implementation;
        let impl =
          (case SwiftClassMethods (IGM igf) of
             Some schema \<Rightarrow>
               PointerAuthSign impl (getKey schema)
                 (getOtherDiscriminator (IGM igf) schema method)
           | None \<Rightarrow> impl);
        let impl = BitCast impl;
        Some (buildF [CreateCondBr isMethod [CreateRet impl]] igf)
      })"

text \<open>
  \<^verbatim>\<open>ClassMetadataScanner::layout()\<close> walks the class in table order and calls back; of the
  callbacks \<^verbatim>\<open>LookUpNonoverriddenMethods\<close> gives a body to \<^verbatim>\<open>noteNonoverriddenMethod\<close> only.
\<close>

fun layout ::
  "ClassDecl \<Rightarrow> Value \<Rightarrow> ScannerEvent list \<Rightarrow> IRGenFunction \<Rightarrow> IRGenFunction option" where
  "layout classDecl methodArg [] igf = Some igf"
| "layout classDecl methodArg (NonoverriddenMethod method # rest) igf =
     do {
       igf \<leftarrow> noteNonoverriddenMethod classDecl methodArg method igf;
       layout classDecl methodArg rest igf
     }"
| "layout classDecl methodArg (_ # rest) igf = layout classDecl methodArg rest igf"

text \<open>
  The body built by \<^verbatim>\<open>IRGenModule::emitMethodLookupFunction\<close> (lines 447-517).
  \<^verbatim>\<open>getAddrOfTypeContextDescriptor\<close> lives outside the translated file; the model keeps
  the address it returns.
\<close>

definition emitMethodLookupFunctionBody :: "ClassDecl \<Rightarrow> IRGenFunction \<Rightarrow> IRGenFunction option" where
  "emitMethodLookupFunctionBody classDecl igf =
     do {
       let ps = collectParameters igf;
       (metadata, ps) \<leftarrow> claimNext ps;
       (method, ps) \<leftarrow> claimNext ps;
       let description = GlobalAddr (forTypeContextDescriptor classDecl);
       igf \<leftarrow> layout classDecl method (scannerLayout (IGM igf) classDecl) igf;
       let result = CallRuntime LookUpClassMethodFn [metadata, method, description];
       Some (buildF [CreateRet result] igf)
     }"

text \<open>\<^verbatim>\<open>IRGenModule::emitMethodLookupFunction\<close> (lines 440-518).\<close>

definition emitMethodLookupFunction :: "ClassDecl \<Rightarrow> IRGenModule \<Rightarrow> IRGenModule option" where
  "emitMethodLookupFunction classDecl m =
     (let (f, m) = getAddrOfMethodLookupFunction classDecl ForDefinition m in
      if \<not> isDeclaration (Functions m ! f) then
        (if isLazilyReemittingNominalTypeDescriptor m classDecl then Some m else None)
      else do {
        igf \<leftarrow> emitMethodLookupFunctionBody classDecl (newIRGenFunction m f);
        let m = IGM igf;
        Some (m\<lparr>Functions := (Functions m)[f := (Functions m ! f)\<lparr>fnBody := Some (Builder igf)\<rparr>]\<rparr>)
      })"

section \<open>Running a method lookup function\<close>

text \<open>
  The pointers a lookup function computes with: the address of a global symbol, the
  address of a function, a signed pointer, and any other object (a type metadata record).
  The runtime routine behind \<^verbatim>\<open>getLookUpClassMethodFn()\<close> is a parameter of the run.
\<close>

datatype Pointer =
    SymbolAddr LinkEntity
  | FnPtr SILFunction
  | Signed Pointer nat nat
  | Object nat

type_synonym Runtime = "Pointer \<Rightarrow> Pointer \<Rightarrow> Pointer \<Rightarrow> Pointer option"

fun eval :: "Runtime \<Rightarrow> Pointer list \<Rightarrow> Value \<Rightarrow> Pointer option" where
  "eval rt args (Argument i) = (if i < length args then Some (args ! i) else None)"
| "eval rt args (GlobalAddr entity) = Some (SymbolAddr entity)"
| "eval rt args (FunctionAddr f) = Some (FnPtr f)"
| "eval rt args (PointerAuthSign v key discriminator) =
     map_option (\<lambda>p. Signed p key discriminator) (eval rt args v)"
| "eval rt args (BitCast v) = eval rt args v"
| "eval rt args (CallRuntime LookUpClassMethodFn [a, b, c]) =
     do {
       x \<leftarrow> eval rt args a;
       y \<leftarrow> eval rt args b;
       z \<leftarrow> eval rt args c;
       rt x y z
     }"
| "eval rt args _ = None"

fun evalCond :: "Runtime \<Rightarrow> Pointer list \<Rightarrow> Value \<Rightarrow> bool option" where
  "evalCond rt args (ICmpEQ a b) =
     do { x \<leftarrow> eval rt args a; y \<leftarrow> eval rt args b; Some (x = y) }"
| "evalCond rt args _ = None"

fun exec :: "Runtime \<Rightarrow> Pointer list \<Rightarrow> Instr list \<Rightarrow> Pointer option" where
  "exec rt args [] = None"
| "exec rt args (CreateRet v # rest) = eval rt args v"
| "exec rt args (CreateCondBr c trueBB # falseBB) =
     (case evalCond rt args c of
        None \<Rightarrow> None
      | Some True \<Rightarrow> exec rt args trueBB
      | Some False \<Rightarrow> exec rt args falseBB)"
| "exec rt args (_ # rest) = None"

section \<open>Notions used to state the properties of the lookup function\<close>

text \<open>The methods the scanner reports as non-overridden, in table order.\<close>

fun notedMethods :: "ScannerEvent list \<Rightarrow> SILDeclRef list" where
  "notedMethods [] = []"
| "notedMethods (NonoverriddenMethod method # rest) = method # notedMethods rest"
| "notedMethods (_ # rest) = notedMethods rest"

text \<open>The non-overridden methods of a class with public visibility, in table order.\<close>

definition fastPathMethods :: "IRGenModule \<Rightarrow> ClassDecl \<Rightarrow> SILDeclRef list" where
  "fastPathMethods m classDecl =
     filter (hasPublicVisibility m) (notedMethods (scannerLayout m classDecl))"

definition signedImplementation :: "IRGenModule \<Rightarrow> SILDeclRef \<Rightarrow> SILFunction \<Rightarrow> Value" where
  "signedImplementation m method f =
     (case SwiftClassMethods m of
        Some schema \<Rightarrow>
          PointerAuthSign (FunctionAddr f) (getKey schema) (getOtherDiscriminator m schema method)
      | None \<Rightarrow> FunctionAddr f)"

text \<open>
  The branch expected for one method: compare the descriptor argument with the method's
  descriptor and, in the true block, return the implementation of its vtable entry.
\<close>

definition fastPathBranch :: "IRGenModule \<Rightarrow> ClassDecl \<Rightarrow> Value \<Rightarrow> SILDeclRef \<Rightarrow> Instr" where
  "fastPathBranch m classDecl methodArg method =
     CreateCondBr (ICmpEQ methodArg (GlobalAddr (forMethodDescriptor method)))
       [CreateRet (BitCast (signedImplementation m method (the (VTable m classDecl method))))]"

text \<open>The pointer a matching branch returns at run time.\<close>

definition staticResult :: "IRGenModule \<Rightarrow> ClassDecl \<Rightarrow> SILDeclRef \<Rightarrow> Pointer" where
  "staticResult m classDecl method =
     (case SwiftClassMethods m of
        Some schema \<Rightarrow>
          Signed (FnPtr (the (VTable m classDecl method))) (getKey schema)
            (getOtherDiscriminator m schema method)
      | None \<Rightarrow> FnPtr (the (VTable m classDecl method)))"

definition methodDescriptorAddr :: "SILDeclRef \<Rightarrow> Pointer" where
  "methodDescriptorAddr method = SymbolAddr (forMethodDescriptor method)"

definition typeContextDescriptorAddr :: "ClassDecl \<Rightarrow> Pointer" where
  "typeContextDescriptorAddr classDecl = SymbolAddr (forTypeContextDescriptor classDecl)"

text \<open>
  Modelled from the spec: the runtime routine behind \<^verbatim>\<open>getLookUpClassMethodFn()\<close> is not
  in the translated file. The spec has it walk the metadata's actual table using generic
  layout data: the layout data of the class description lists the method descriptors in
  slot order, the table of the metadata record holds the implementation of each slot,
  and the routine answers with the entry of the descriptor's slot, or aborts.
\<close>

definition tableEntry ::
  "(nat \<Rightarrow> Pointer list) \<Rightarrow> (Pointer \<Rightarrow> Pointer list) \<Rightarrow> nat \<Rightarrow> Pointer \<Rightarrow> Pointer \<Rightarrow>
     Pointer option" where
  "tableEntry actualTable layoutData k description method =
     map_of (zip (layoutData description) (actualTable k)) method"

definition lookUpClassMethod ::
  "(nat \<Rightarrow> Pointer list) \<Rightarrow> (Pointer \<Rightarrow> Pointer list) \<Rightarrow> Runtime" where
  "lookUpClassMethod actualTable layoutData metadata method description =
     (case metadata of
        Object k \<Rightarrow> tableEntry actualTable layoutData k description method
      | _ \<Rightarrow> None)"


text \<open>The body a module holds for a link entity, and a call of the lookup function of a class.\<close>

definition definedBody :: "IRGenModule \<Rightarrow> LinkEntity \<Rightarrow> Instr list option" where
  "definedBody m entity = Option.bind (GlobalFuncs m entity) (\<lambda>f. fnBody (Functions m ! f))"

definition runLookupFunction ::
  "IRGenModule \<Rightarrow> ClassDecl \<Rightarrow> Runtime \<Rightarrow> Pointer \<Rightarrow> Pointer \<Rightarrow> Pointer option" where
  "runLookupFunction m classDecl rt metadata method =
     Option.bind (definedBody m (forMethodLookupFunction classDecl)) (exec rt [metadata, method])"


text \<open>
  Two modules of one program: they answer alike whatever the file asks of the SIL module
  and of the options, and may differ in their tables of functions and variables.
\<close>

definition sameProgram :: "IRGenModule \<Rightarrow> IRGenModule \<Rightarrow> bool" where
  "sameProgram m m' =
     (Types m' = Types m \<and> declContextIsProtocol m' = declContextIsProtocol m \<and>
      hasPublicVisibility m' = hasPublicVisibility m \<and>
      getOverriddenWitnessTableEntry m' = getOverriddenWitnessTableEntry m \<and>
      VTable m' = VTable m \<and> scannerLayout m' = scannerLayout m \<and>
      isLazilyReemittingNominalTypeDescriptor m' = isLazilyReemittingNominalTypeDescriptor m \<and>
      SwiftClassMethods m' = SwiftClassMethods m \<and>
      getOtherDiscriminator m' = getOtherDiscriminator m)"

text \<open>
  A later state of a module in which only variables have been declared: the same
  program, the same functions, and every variable registered before is still registered.
\<close>

definition declaresVariables :: "IRGenModule \<Rightarrow> IRGenModule \<Rightarrow> bool" where
  "declaresVariables m m' =
     (sameProgram m m' \<and> Functions m' = Functions m \<and> GlobalFuncs m' = GlobalFuncs m \<and>
      (\<forall>entity var. GlobalVars m entity = Some var \<longrightarrow> GlobalVars m' entity = Some var))"

section \<open>Notions used to state the properties of thunks\<close>

text \<open>The instructions argument preparation builds.\<close>

fun isMarshalInstr :: "Instr \<Rightarrow> bool" where
  "isMarshalInstr EmitCastTo = True"
| "isMarshalInstr (ProjectField f) = True"
| "isMarshalInstr (CreateLoad v) = True"
| "isMarshalInstr (EmitLoadAsTake ty v) = True"
| "isMarshalInstr (EmitMapFromNative ty vs) = True"
| "isMarshalInstr (SaveBindings a vs) = True"
| "isMarshalInstr _ = False"

text \<open>Two states of the generator of one thunk: same method, same function, same module.\<close>

definition sameMethod :: "IRGenThunk \<Rightarrow> IRGenThunk \<Rightarrow> bool" where
  "sameMethod t t' =
     (declRef t' = declRef t \<and> origTy t' = origTy t \<and> isAsync t' = isAsync t \<and>
      isCoroutine t' = isCoroutine t \<and> isWitnessMethod t' = isWitnessMethod t \<and>
      asyncLayout t' = asyncLayout t \<and> CurFn (IGF t') = CurFn (IGF t) \<and>
      IGM (IGF t') = IGM (IGF t))"

definition marshalled :: "IRGenThunk \<Rightarrow> IRGenThunk \<Rightarrow> bool" where
  "marshalled t t' =
     (sameMethod t t' \<and>
      (\<exists>pre. Builder (IGF t') = Builder (IGF t) @ pre \<and> list_all isMarshalInstr pre))"

text \<open>
  A module is well formed when every entry of \<^verbatim>\<open>GlobalFuncs\<close> points to a function of
  the module, and a function with a body has had its linkage computed for a definition.
\<close>

definition wellFormed :: "IRGenModule \<Rightarrow> bool" where
  "wellFormed m =
     (\<forall>entity f. GlobalFuncs m entity = Some f \<longrightarrow>
        f < length (Functions m) \<and>
        (fnBody (Functions m ! f) \<noteq> None \<longrightarrow> fnLinkage (Functions m ! f) = ForDefinition))"

text \<open>A sequence of \<open>n\<close> requests to define the thunk of one method reference.\<close>

fun defineTimes :: "nat \<Rightarrow> SILDeclRef \<Rightarrow> IRGenModule \<Rightarrow> IRGenModule option" where
  "defineTimes 0 ref m = Some m"
| "defineTimes (Suc n) ref m = Option.bind (emitDispatchThunk ref m) (defineTimes n ref)"

text \<open>
  The fields of the context frame whose address a sequence of instructions projects, and
  the fields it loads, each in the order of the instructions.
\<close>

fun projectedFields :: "Instr list \<Rightarrow> ElementLayout list" where
  "projectedFields [] = []"
| "projectedFields (ProjectField f # rest) = f # projectedFields rest"
| "projectedFields (_ # rest) = projectedFields rest"

fun loadedFields :: "Instr list \<Rightarrow> ElementLayout list" where
  "loadedFields [] = []"
| "loadedFields (CreateLoad (Project f AsyncContext) # rest) = f # loadedFields rest"
| "loadedFields (_ # rest) = loadedFields rest"

definition loaded :: "ElementLayout \<Rightarrow> Value" where
  "loaded f = Load (Project f AsyncContext)"

text \<open>The order of the fields as the specification of the asynchronous path gives it.\<close>

definition asyncFieldOrder :: "bool \<Rightarrow> bool \<Rightarrow> AsyncContextLayout \<Rightarrow> ElementLayout list" where
  "asyncFieldOrder witness throws frame =
     [LocalContextLayout] @
     (if witness then [SelfMetadataLayout, SelfWitnessTableLayout] else []) @
     (if throws then [ErrorLayout] else []) @
     map IndirectReturnLayout [0 ..< getIndirectReturnCount frame] @
     map ArgumentLayout [0 ..< getArgumentCount frame] @
     (if hasBindings frame then [BindingsLayout] else [])"

text \<open>
  The number of incoming values a declared parameter covers, and what is handed on for
  it: the value loaded from its address when its native schema requires indirect
  passing, the values of its run mapped from the native schema when it is passed in
  registers, the address itself when the parameter is an address.
\<close>

definition nativeWidth :: "SILParameterInfo \<Rightarrow> nat" where
  "nativeWidth param =
     (if isObject param then
        (if requiresIndirect (nativeParameterValueSchema param) then 1
         else if \<not> schemaEmpty (nativeParameterValueSchema param) then
           schemaSize (nativeParameterValueSchema param)
         else 0)
      else 1)"

definition marshalParameter :: "SILParameterInfo \<Rightarrow> Explosion \<Rightarrow> Explosion" where
  "marshalParameter param vs =
     (if isObject param then
        (if requiresIndirect (nativeParameterValueSchema param) then
           [LoadAsTake (paramType param) (hd vs)]
         else if \<not> schemaEmpty (nativeParameterValueSchema param) then
           [MapFromNative (paramType param) vs]
         else [])
      else vs)"

definition marshalParameterInstrs :: "SILParameterInfo \<Rightarrow> Explosion \<Rightarrow> Instr list" where
  "marshalParameterInstrs param vs =
     (if isObject param then
        (if requiresIndirect (nativeParameterValueSchema param) then
           [EmitLoadAsTake (paramType param) (hd vs)]
         else if \<not> schemaEmpty (nativeParameterValueSchema param) then
           [EmitMapFromNative (paramType param) vs]
         else [])
      else [])"

text \<open>
  The steps of the non-asynchronous path as the specification lists them: it goes from
  the return destination straight to the declared parameters.
\<close>

definition prepareArgumentsSyncAsClaimed :: "IRGenThunk \<Rightarrow> IRGenThunk option" where
  "prepareArgumentsSyncAsClaimed t =
     do {
       st \<leftarrow> takeWitnessMetadata (collectParameters (IGF t), t);
       st \<leftarrow> takeErrorResult st;
       st \<leftarrow> transferCoroutineBuffer st;
       st \<leftarrow> takeSelf st;
       st \<leftarrow> claimIndirectReturnSlot st;
       st \<leftarrow> prepareParameters (butlast (getParameters (origTy (snd st)))) st;
       Some (passAlong st)
     }"

text \<open>
  The steps of the asynchronous path as the specification lists them: every field of the
  list is loaded from the frame, the error slot and the bindings included, and what is
  loaded feeds the record as on the other path, where the error slot is both the error
  result and the caller's error slot and what is left over is handed on with the
  arguments.
\<close>

definition prepareArgumentsAsyncAsClaimed :: "IRGenThunk \<Rightarrow> IRGenThunk option" where
  "prepareArgumentsAsyncAsClaimed t =
     (if isCoroutine t then None
      else do {
        layout \<leftarrow> asyncLayout t;
        t \<leftarrow> loadLocalContext layout t;
        t \<leftarrow> loadWitnessMetadata layout t;
        let t =
          (if hasErrorResult (origTy t) then
             (let (e, t) = loadContextField ErrorLayout t
              in setCallerErrorResultSlot e (t\<lparr>errorResult := Some e\<rparr>))
           else t);
        let t = loadFieldsIntoParams IndirectReturnLayout [0 ..< getIndirectReturnCount layout] t;
        let t = loadFieldsIntoParams ArgumentLayout [0 ..< getArgumentCount layout] t;
        Some (if hasBindings layout then loadFieldsIntoParams (\<lambda>i. BindingsLayout) [0] t else t)
      })"




text \<open>Every entry of \<^verbatim>\<open>GlobalVars\<close> points to a variable of the module.\<close>

definition wellFormedVars :: "IRGenModule \<Rightarrow> bool" where
  "wellFormedVars m =
     (\<forall>entity var. GlobalVars m entity = Some var \<longrightarrow>
        var < length (Variables m) \<and> varName (Variables m ! var) = entity)"

text \<open>Two states of the generator with the same receiver and witness metadata.\<close>

definition sameReceiver :: "IRGenThunk \<Rightarrow> IRGenThunk \<Rightarrow> bool" where
  "sameReceiver t t' = (selfValue t' = selfValue t \<and> witnessMetadata t' = witnessMetadata t)"

text \<open>
  The number of values argument preparation takes from the tail before the receiver: the
  witness table and the type descriptor, and the error slot.
\<close>

definition trailingValues :: "IRGenThunk \<Rightarrow> nat" where
  "trailingValues t =
     (if isWitnessMethod t then 2 else 0) + (if hasErrorResult (origTy t) then 1 else 0)"

section \<open>Example inputs\<close>

definition exampleDirectSchema :: NativeConventionSchema where
  "exampleDirectSchema = \<lparr>requiresIndirect = False, schemaEmpty = False, schemaSize = 2\<rparr>"

definition exampleIndirectSchema :: NativeConventionSchema where
  "exampleIndirectSchema = \<lparr>requiresIndirect = True, schemaEmpty = False, schemaSize = 1\<rparr>"

definition exampleLayout :: AsyncContextLayout where
  "exampleLayout =
     \<lparr>hasLocalContext = True, hasTrailingWitnesses = True, getIndirectReturnCount = 1,
      getArgumentCount = 2, hasBindings = True, getSize = 64,
      bindingsSave = (\<lambda>addr ps. ps)\<rparr>"

definition exampleType :: CanSILFunctionType where
  "exampleType =
     \<lparr>tyIsAsync = False, tyIsCoroutine = False, hasErrorResult = True,
      getParameters =
        [\<lparr>paramType = 7, isObject = True, nativeParameterValueSchema = exampleIndirectSchema\<rparr>,
         \<lparr>paramType = 8, isObject = True, nativeParameterValueSchema = exampleDirectSchema\<rparr>,
         \<lparr>paramType = 9, isObject = False, nativeParameterValueSchema = exampleDirectSchema\<rparr>,
         \<lparr>paramType = 1, isObject = True, nativeParameterValueSchema = exampleDirectSchema\<rparr>],
      getNumIndirectSILResults = 1, nativeReturnValueSchema = exampleIndirectSchema,
      resultExplosionSize = 1, selfIsMetatype = False, numArguments = 11,
      getAsyncContextLayout = exampleLayout\<rparr>"

text \<open>
  A class with the table \<open>1, 2, 3, 4\<close>: method 2 is overridden, method 3 is not public.
  Its lookup function is declared and not yet defined.
\<close>

definition exampleClassModule :: IRGenModule where
  "exampleClassModule =
     \<lparr>Types = (\<lambda>ref. exampleType), declContextIsProtocol = (\<lambda>ref. False),
      hasPublicVisibility = (\<lambda>ref. ref \<noteq> 3), getOverriddenWitnessTableEntry = (\<lambda>ref. ref),
      VTable = (\<lambda>classDecl ref. Some (10 + ref)),
      scannerLayout = (\<lambda>classDecl.
        [StartOfImmediateMembers 0, NonoverriddenMethod 1, ReifiedMethod 2,
         NonoverriddenMethod 3, NonoverriddenMethod 4]),
      isLazilyReemittingNominalTypeDescriptor = (\<lambda>classDecl. False),
      SwiftClassMethods = Some \<lparr>getKey = 2\<rparr>,
      getOtherDiscriminator = (\<lambda>schema ref. 100 + ref),
      GlobalFuncs = [forMethodLookupFunction 0 \<mapsto> 0],
      Functions = [\<lparr>fnName = forMethodLookupFunction 0, fnLinkage = ForDefinition,
                    fnSignature = 2, fnBody = None\<rparr>],
      GlobalVars = Map.empty, Variables = []\<rparr>"

definition exampleLookupBody :: "Instr list" where
  "exampleLookupBody =
     [CreateCondBr (ICmpEQ (Argument 1) (GlobalAddr (forMethodDescriptor 1)))
        [CreateRet (BitCast (PointerAuthSign (FunctionAddr 11) 2 101))],
      CreateCondBr (ICmpEQ (Argument 1) (GlobalAddr (forMethodDescriptor 4)))
        [CreateRet (BitCast (PointerAuthSign (FunctionAddr 14) 2 104))],
      CreateRet (CallRuntime LookUpClassMethodFn
        [Argument 0, Argument 1, GlobalAddr (forTypeContextDescriptor 0)])]"

text \<open>
  The metadata records of a run. Record 0 is the class's own: its table holds the signed
  implementations of the four methods. Every other record belongs to a subclass that
  overrides method 2 and adds a method. The layout data of the class description lists
  the descriptors of the four methods in slot order.
\<close>

definition exampleTables :: "nat \<Rightarrow> Pointer list" where
  "exampleTables k =
     (if k = 0 then
        [Signed (FnPtr 11) 2 101, Signed (FnPtr 12) 2 102, Signed (FnPtr 13) 2 103,
         Signed (FnPtr 14) 2 104]
      else
        [Signed (FnPtr 11) 2 101, Signed (FnPtr 22) 2 102, Signed (FnPtr 13) 2 103,
         Signed (FnPtr 14) 2 104, Signed (FnPtr 25) 2 105])"

definition exampleLayoutData :: "Pointer \<Rightarrow> Pointer list" where
  "exampleLayoutData description =
     (if description = typeContextDescriptorAddr 0 then map methodDescriptorAddr [1, 2, 3, 4]
      else [])"

definition exampleRuntime :: Runtime where
  "exampleRuntime = lookUpClassMethod exampleTables exampleLayoutData"

text \<open>
  A module with nothing declared yet. Method 0 is a throwing protocol requirement with an
  indirect return, method 1 its asynchronous variant with a direct result, method 2 its
  coroutine variant, method 3 a class method with one indirect result and one parameter
  passed indirectly.
\<close>

definition exampleModule :: IRGenModule where
  "exampleModule =
     \<lparr>Types = (\<lambda>ref.
        if ref = 1 then
          exampleType\<lparr>tyIsAsync := True, nativeReturnValueSchema := exampleDirectSchema\<rparr>
        else if ref = 2 then exampleType\<lparr>tyIsCoroutine := True, numArguments := 12\<rparr>
        else if ref = 3 then
          exampleType\<lparr>hasErrorResult := False,
            getParameters :=
              [\<lparr>paramType = 7, isObject = True,
                nativeParameterValueSchema = exampleIndirectSchema\<rparr>,
               \<lparr>paramType = 1, isObject = True,
                nativeParameterValueSchema = exampleDirectSchema\<rparr>],
            nativeReturnValueSchema := exampleDirectSchema, numArguments := 3\<rparr>
        else exampleType),
      declContextIsProtocol = (\<lambda>ref. ref \<noteq> 3), hasPublicVisibility = (\<lambda>ref. True),
      getOverriddenWitnessTableEntry = (\<lambda>ref. ref),
      VTable = (\<lambda>classDecl ref. None), scannerLayout = (\<lambda>classDecl. []),
      isLazilyReemittingNominalTypeDescriptor = (\<lambda>classDecl. False),
      SwiftClassMethods = None, getOtherDiscriminator = (\<lambda>schema ref. 0),
      GlobalFuncs = Map.empty, Functions = [], GlobalVars = Map.empty, Variables = []\<rparr>"

text \<open>The generator of the thunk of a method of the example, its function just declared.\<close>

definition exampleThunk :: "SILDeclRef \<Rightarrow> IRGenThunk" where
  "exampleThunk ref =
     newIRGenThunk
       (newIRGenFunction (snd (getAddrOfDispatchThunk ref ForDefinition exampleModule)) 0) ref"

text \<open>
  The generator of the thunk of the asynchronous method 1, in a module in which the
  address of its async function pointer has been taken before.
\<close>

definition exampleDeclaredThunk :: IRGenThunk where
  "exampleDeclaredThunk =
     newIRGenThunk
       (newIRGenFunction
          (snd (getAddrOfAsyncFunctionPointer (forDispatchThunk 1)
             (snd (getAddrOfDispatchThunk 1 ForDefinition exampleModule)))) 0) 1"

section \<open>Properties of the method lookup function\<close>

lemma sameProgram_refl: "sameProgram m m"
  by (simp add: sameProgram_def)

lemma sameProgram_trans: "sameProgram a b \<Longrightarrow> sameProgram b c \<Longrightarrow> sameProgram a c"
  by (simp add: sameProgram_def)

lemma sameProgram_fastPath:
  assumes "sameProgram m m'"
  shows "fastPathMethods m' c = fastPathMethods m c"
    and "fastPathBranch m' c arg d = fastPathBranch m c arg d"
    and "staticResult m' c d = staticResult m c d"
    and "hasPublicVisibility m' = hasPublicVisibility m"
    and "VTable m' = VTable m"
    and "scannerLayout m' = scannerLayout m"
  using assms
  by (simp_all add: sameProgram_def fastPathMethods_def fastPathBranch_def
      signedImplementation_def staticResult_def split: option.splits)

lemma declaresVariables_refl: "declaresVariables m m"
  by (simp add: declaresVariables_def sameProgram_refl)

lemma declaresVariables_trans:
  "declaresVariables a b \<Longrightarrow> declaresVariables b c \<Longrightarrow> declaresVariables a c"
  unfolding declaresVariables_def using sameProgram_trans by auto

lemma getAddrOfMethodDescriptor_declares:
  assumes "wellFormedVars m" "getAddrOfMethodDescriptor d fd m = Some (v, m')"
  shows "v = GlobalAddr (forMethodDescriptor d) \<and> declaresVariables m m' \<and>
         wellFormedVars m' \<and> GlobalVars m' (forMethodDescriptor d) \<noteq> None"
proof (cases "GlobalVars m (forMethodDescriptor d)")
  case None
  with assms show ?thesis
    by (auto simp: getAddrOfMethodDescriptor_def getAddrOfLLVMVariable_def wellFormedVars_def
        declaresVariables_def sameProgram_def nth_append less_Suc_eq Let_def
        split: if_splits)
next
  case (Some var)
  with assms show ?thesis
    by (auto simp: getAddrOfMethodDescriptor_def getAddrOfLLVMVariable_def wellFormedVars_def
        declaresVariables_def sameProgram_def Let_def split: if_splits)
qed

lemma noteNonoverriddenMethod_builder:
  assumes wf: "wellFormedVars (IGM igf)"
    and n: "noteNonoverriddenMethod c arg d igf = Some igf'"
  shows "declaresVariables (IGM igf) (IGM igf') \<and> wellFormedVars (IGM igf') \<and>
         CurFn igf' = CurFn igf \<and>
         (hasPublicVisibility (IGM igf) d \<longrightarrow>
            VTable (IGM igf) c d \<noteq> None \<and> GlobalVars (IGM igf') (forMethodDescriptor d) \<noteq> None) \<and>
         Builder igf' = Builder igf @
           map (fastPathBranch (IGM igf) c arg) (filter (hasPublicVisibility (IGM igf)) [d])"
proof (cases "hasPublicVisibility (IGM igf) d")
  case False
  with n wf show ?thesis by (simp add: noteNonoverriddenMethod_def declaresVariables_refl)
next
  case True
  with n obtain v m1 impl where
    g: "getAddrOfMethodDescriptor d NotForDefinition (IGM igf) = Some (v, m1)" and
    vt: "VTable m1 c d = Some impl" and
    r: "igf' = buildF [CreateCondBr (ICmpEQ arg v)
          [CreateRet (BitCast (signedImplementation m1 d impl))]] (igf\<lparr>IGM := m1\<rparr>)"
    by (auto simp: noteNonoverriddenMethod_def signedImplementation_def Let_def
        split: Option.bind_splits option.splits)
  from getAddrOfMethodDescriptor_declares[OF wf g] have
    v: "v = GlobalAddr (forMethodDescriptor d)" and dv: "declaresVariables (IGM igf) m1" and
    wf1: "wellFormedVars m1" and dec: "GlobalVars m1 (forMethodDescriptor d) \<noteq> None"
    by blast+
  from dv have sp: "sameProgram (IGM igf) m1" by (simp add: declaresVariables_def)
  have br: "fastPathBranch (IGM igf) c arg d =
      CreateCondBr (ICmpEQ arg v) [CreateRet (BitCast (signedImplementation m1 d impl))]"
    using sp vt v
    by (simp add: fastPathBranch_def signedImplementation_def sameProgram_def
        split: option.splits)
  from True vt sameProgram_fastPath(5)[OF sp] dv wf1 dec br show ?thesis
    unfolding r by (simp add: buildF_def)
qed

lemma layout_builder:
  "wellFormedVars (IGM igf) \<Longrightarrow> layout c arg evs igf = Some igf' \<Longrightarrow>
     declaresVariables (IGM igf) (IGM igf') \<and> wellFormedVars (IGM igf') \<and>
     CurFn igf' = CurFn igf \<and>
     (\<forall>d \<in> set (filter (hasPublicVisibility (IGM igf)) (notedMethods evs)).
        VTable (IGM igf) c d \<noteq> None \<and> GlobalVars (IGM igf') (forMethodDescriptor d) \<noteq> None) \<and>
     Builder igf' = Builder igf @
       map (fastPathBranch (IGM igf) c arg)
         (filter (hasPublicVisibility (IGM igf)) (notedMethods evs))"
proof (induction c arg evs igf arbitrary: igf' rule: layout.induct)
  case (1 classDecl methodArg igf)
  then show ?case by (simp add: declaresVariables_refl)
next
  case (2 classDecl methodArg meth rest igf)
  from "2.prems"(2) obtain igf1 where
    n: "noteNonoverriddenMethod classDecl methodArg meth igf = Some igf1"
    and l: "layout classDecl methodArg rest igf1 = Some igf'"
    by (auto split: Option.bind_splits)
  note a = noteNonoverriddenMethod_builder[OF "2.prems"(1) n]
  from a have wf1: "wellFormedVars (IGM igf1)" and dv1: "declaresVariables (IGM igf) (IGM igf1)"
    by blast+
  note b = "2.IH"[OF n wf1 l]
  from b have dv2: "declaresVariables (IGM igf1) (IGM igf')" by blast
  from dv1 have sp: "sameProgram (IGM igf) (IGM igf1)" by (simp add: declaresVariables_def)
  have mono: "GlobalVars (IGM igf1) e \<noteq> None \<Longrightarrow> GlobalVars (IGM igf') e \<noteq> None" for e
    using dv2 by (auto simp: declaresVariables_def)
  have fb: "fastPathBranch (IGM igf1) classDecl methodArg = fastPathBranch (IGM igf) classDecl methodArg"
    using sameProgram_fastPath(2)[OF sp] by (intro ext)
  from a b mono show ?case
    by (auto simp: declaresVariables_trans[OF dv1 dv2] sameProgram_fastPath(4,5)[OF sp] fb)
qed (auto simp: declaresVariables_refl)

lemma lookup_body_closed:
  assumes wf: "wellFormedVars m"
    and e: "emitMethodLookupFunctionBody c (newIRGenFunction m f) = Some igf"
  shows "declaresVariables m (IGM igf) \<and> wellFormedVars (IGM igf) \<and>
     (\<forall>d \<in> set (fastPathMethods m c).
        VTable m c d \<noteq> None \<and> GlobalVars (IGM igf) (forMethodDescriptor d) \<noteq> None) \<and>
     Builder igf = map (fastPathBranch m c (Argument 1)) (fastPathMethods m c) @
        [CreateRet (CallRuntime LookUpClassMethodFn
           [Argument 0, Argument 1, GlobalAddr (forTypeContextDescriptor c)])]"
proof -
  let ?igf0 = "newIRGenFunction m f"
  from e obtain md r1 me r2 igf1 where
    c1: "claimNext (collectParameters ?igf0) = Some (md, r1)" and
    c2: "claimNext r1 = Some (me, r2)" and
    l: "layout c me (scannerLayout m c) ?igf0 = Some igf1" and
    b: "igf = buildF [CreateRet (CallRuntime LookUpClassMethodFn
          [md, me, GlobalAddr (forTypeContextDescriptor c)])] igf1"
    by (auto simp: emitMethodLookupFunctionBody_def newIRGenFunction_def Let_def
        split: Option.bind_splits)
  have args: "md = Argument 0 \<and> me = Argument 1"
    using c1 c2
    by (cases "fnSignature (Functions m ! f)"; cases "fnSignature (Functions m ! f) - 1")
       (auto simp: claimNext_def collectParameters_def newIRGenFunction_def upt_rec
          split: list.splits if_splits)
  have wf0: "wellFormedVars (IGM ?igf0)" using wf by (simp add: newIRGenFunction_def)
  from layout_builder[OF wf0 l] b args show ?thesis
    by (simp add: newIRGenFunction_def buildF_def fastPathMethods_def)
qed

lemma getAddrOfMethodLookupFunction_result:
  assumes wf: "wellFormed m"
    and g: "getAddrOfMethodLookupFunction c fd m = (f, m0)"
  shows "sameProgram m m0 \<and> GlobalVars m0 = GlobalVars m \<and> Variables m0 = Variables m \<and>
     wellFormed m0 \<and> GlobalFuncs m0 (forMethodLookupFunction c) = Some f \<and>
     f < length (Functions m0) \<and>
     fnBody (Functions m0 ! f) = definedBody m (forMethodLookupFunction c) \<and>
     (fd = ForDefinition \<longrightarrow> fnLinkage (Functions m0 ! f) = ForDefinition)"
proof (cases "GlobalFuncs m (forMethodLookupFunction c)")
  case None
  with wf g show ?thesis
    by (auto simp: getAddrOfMethodLookupFunction_def createFunction_def sameProgram_def
        wellFormed_def definedBody_def nth_append less_Suc_eq Let_def split: if_splits)
next
  case (Some f')
  with wf have "f' < length (Functions m)" by (auto simp: wellFormed_def)
  with Some wf g show ?thesis
    by (auto simp: getAddrOfMethodLookupFunction_def updateLinkageForDefinition_def
        sameProgram_def wellFormed_def definedBody_def nth_list_update Let_def
        split: if_splits)
qed

lemma emitMethodLookupFunction_defined:
  assumes wf: "wellFormed m" and wfv: "wellFormedVars m"
    and nd: "definedBody m (forMethodLookupFunction c) = None"
    and e: "emitMethodLookupFunction c m = Some m'"
  shows "definedBody m' (forMethodLookupFunction c) =
       Some (map (fastPathBranch m c (Argument 1)) (fastPathMethods m c) @
         [CreateRet (CallRuntime LookUpClassMethodFn
            [Argument 0, Argument 1, GlobalAddr (forTypeContextDescriptor c)])]) \<and>
     (\<forall>d \<in> set (fastPathMethods m c).
        VTable m c d \<noteq> None \<and> GlobalVars m' (forMethodDescriptor d) \<noteq> None) \<and>
     sameProgram m m' \<and> wellFormed m' \<and> wellFormedVars m'"
proof -
  obtain f m0 where g: "getAddrOfMethodLookupFunction c ForDefinition m = (f, m0)"
    by (cases "getAddrOfMethodLookupFunction c ForDefinition m")
  note r = getAddrOfMethodLookupFunction_result[OF wf g]
  from r nd have decl: "isDeclaration (Functions m0 ! f)" by (simp add: isDeclaration_def)
  from r have sp0: "sameProgram m m0" and wf0: "wellFormed m0" and
    ent: "GlobalFuncs m0 (forMethodLookupFunction c) = Some f" and
    fl: "f < length (Functions m0)" and link: "fnLinkage (Functions m0 ! f) = ForDefinition"
    by blast+
  from r wfv have wfv0: "wellFormedVars m0" by (simp add: wellFormedVars_def)
  from e g decl obtain igf where
    b: "emitMethodLookupFunctionBody c (newIRGenFunction m0 f) = Some igf" and
    m': "m' = (IGM igf)\<lparr>Functions := (Functions (IGM igf))
           [f := (Functions (IGM igf) ! f)\<lparr>fnBody := Some (Builder igf)\<rparr>]\<rparr>"
    by (auto simp: emitMethodLookupFunction_def Let_def split: Option.bind_splits)
  note c = lookup_body_closed[OF wfv0 b]
  from c have dv: "declaresVariables m0 (IGM igf)" and wfv1: "wellFormedVars (IGM igf)" by blast+
  from dv have fs: "Functions (IGM igf) = Functions m0" and gf: "GlobalFuncs (IGM igf) = GlobalFuncs m0"
    and sp1: "sameProgram m0 (IGM igf)"
    by (simp_all add: declaresVariables_def)
  have body: "definedBody m' (forMethodLookupFunction c) = Some (Builder igf)"
    unfolding m' by (simp add: definedBody_def gf ent fs fl)
  have sp': "sameProgram (IGM igf) m'" unfolding m' by (simp add: sameProgram_def)
  have sp: "sameProgram m m'" using sameProgram_trans[OF sameProgram_trans[OF sp0 sp1] sp'] .
  have wf': "wellFormed m'"
    using wf0 fl link unfolding m' wellFormed_def by (auto simp: fs gf nth_list_update)
  have wfv': "wellFormedVars m'" using wfv1 unfolding m' by (simp add: wellFormedVars_def)
  have gv: "GlobalVars m' = GlobalVars (IGM igf)" unfolding m' by simp
  from c body sp wf' wfv' show ?thesis
    by (simp add: gv sameProgram_fastPath(1,2,5)[OF sp0])
qed

lemma eval_staticResult:
  "eval rt args (BitCast (signedImplementation m d (the (VTable m c d)))) =
     Some (staticResult m c d)"
  by (simp add: signedImplementation_def staticResult_def split: option.splits)

lemma exec_branches:
  "exec rt [metadata, method] (map (fastPathBranch m c (Argument 1)) ds @ tail) =
     (case find (\<lambda>d. method = methodDescriptorAddr d) ds of
        Some d \<Rightarrow> Some (staticResult m c d)
      | None \<Rightarrow> exec rt [metadata, method] tail)"
proof (induction ds)
  case Nil
  show ?case by simp
next
  case (Cons d ds)
  show ?case
    using Cons.IH
    by (simp add: fastPathBranch_def eval_staticResult methodDescriptorAddr_def
        del: eval.simps(4,5))
qed


lemma find_descriptor_member:
  "d \<in> set ds \<Longrightarrow> find (\<lambda>d'. methodDescriptorAddr d = methodDescriptorAddr d') ds = Some d"
  by (induction ds) (auto simp: methodDescriptorAddr_def)

lemma find_descriptor_none:
  "method \<notin> methodDescriptorAddr ` set ds \<Longrightarrow>
     find (\<lambda>d'. method = methodDescriptorAddr d') ds = None"
  by (induction ds) auto

lemma exec_runtime_call:
  "exec rt [metadata, method]
     [CreateRet (CallRuntime LookUpClassMethodFn
        [Argument 0, Argument 1, GlobalAddr (forTypeContextDescriptor c)])] =
   rt metadata method (typeContextDescriptorAddr c)"
  by (simp add: typeContextDescriptorAddr_def)

lemma run_lookup_match:
  assumes "definedBody m' (forMethodLookupFunction c) =
       Some (map (fastPathBranch m c (Argument 1)) (fastPathMethods m c) @
         [CreateRet (CallRuntime LookUpClassMethodFn
            [Argument 0, Argument 1, GlobalAddr (forTypeContextDescriptor c)])])"
    and "d \<in> set (fastPathMethods m c)"
  shows "runLookupFunction m' c rt metadata (methodDescriptorAddr d) = Some (staticResult m c d)"
  unfolding runLookupFunction_def assms(1)
  by (simp only: Option.bind.simps exec_branches find_descriptor_member[OF assms(2)] option.case)

lemma run_lookup_fallthrough:
  assumes "definedBody m' (forMethodLookupFunction c) =
       Some (map (fastPathBranch m c (Argument 1)) (fastPathMethods m c) @
         [CreateRet (CallRuntime LookUpClassMethodFn
            [Argument 0, Argument 1, GlobalAddr (forTypeContextDescriptor c)])])"
    and "method \<notin> methodDescriptorAddr ` set (fastPathMethods m c)"
  shows "runLookupFunction m' c rt metadata method =
           rt metadata method (typeContextDescriptorAddr c)"
  unfolding runLookupFunction_def assms(1)
  by (simp only: Option.bind.simps exec_branches find_descriptor_none[OF assms(2)] option.case
      exec_runtime_call)




text \<open>
  The definition of the lookup function succeeds for a class whose lookup function has
  not been requested before, when every non-overridden public method has an entry in the
  class's vtable and is its own overridden witness table entry.
\<close>

lemma noteNonoverriddenMethod_succeeds:
  assumes "hasPublicVisibility (IGM igf) d \<longrightarrow>
      VTable (IGM igf) c d \<noteq> None \<and> getOverriddenWitnessTableEntry (IGM igf) d = d"
  shows "\<exists>igf'. noteNonoverriddenMethod c arg d igf = Some igf'"
proof (cases "hasPublicVisibility (IGM igf) d")
  case False
  then show ?thesis by (simp add: noteNonoverriddenMethod_def)
next
  case True
  with assms obtain impl where vt: "VTable (IGM igf) c d = Some impl"
    and ov: "getOverriddenWitnessTableEntry (IGM igf) d = d"
    by auto
  obtain var m1 where g: "getAddrOfLLVMVariable (forMethodDescriptor d) None (IGM igf) = (var, m1)"
    by (cases "getAddrOfLLVMVariable (forMethodDescriptor d) None (IGM igf)")
  then have "VTable m1 = VTable (IGM igf)"
    by (auto simp: getAddrOfLLVMVariable_def split: option.splits)
  with True vt ov g show ?thesis
    by (simp add: noteNonoverriddenMethod_def getAddrOfMethodDescriptor_def Let_def)
qed

lemma layout_succeeds:
  "wellFormedVars (IGM igf) \<Longrightarrow>
   \<forall>d \<in> set (filter (hasPublicVisibility (IGM igf)) (notedMethods evs)).
      VTable (IGM igf) c d \<noteq> None \<and> getOverriddenWitnessTableEntry (IGM igf) d = d \<Longrightarrow>
   \<exists>igf'. layout c arg evs igf = Some igf'"
proof (induction c arg evs igf rule: layout.induct)
  case (2 classDecl methodArg meth rest igf)
  from "2.prems"(2) obtain igf1 where
    n: "noteNonoverriddenMethod classDecl methodArg meth igf = Some igf1"
    using noteNonoverriddenMethod_succeeds[of igf meth classDecl methodArg] by auto
  from noteNonoverriddenMethod_builder[OF "2.prems"(1) n] have
    wf1: "wellFormedVars (IGM igf1)" and sp: "sameProgram (IGM igf) (IGM igf1)"
    by (auto simp: declaresVariables_def)
  from sp "2.prems"(2) have
    "\<forall>d \<in> set (filter (hasPublicVisibility (IGM igf1)) (notedMethods rest)).
      VTable (IGM igf1) classDecl d \<noteq> None \<and> getOverriddenWitnessTableEntry (IGM igf1) d = d"
    by (auto simp: sameProgram_def)
  from "2.IH"[OF n wf1 this] n show ?case by simp
qed auto

lemma emitMethodLookupFunction_succeeds:
  assumes wf: "wellFormed m" and wfv: "wellFormedVars m"
    and fresh: "GlobalFuncs m (forMethodLookupFunction c) = None"
    and vt: "\<forall>d \<in> set (fastPathMethods m c).
      VTable m c d \<noteq> None \<and> getOverriddenWitnessTableEntry m d = d"
  shows "\<exists>m'. emitMethodLookupFunction c m = Some m'"
proof -
  obtain f m0 where g: "getAddrOfMethodLookupFunction c ForDefinition m = (f, m0)"
    by (cases "getAddrOfMethodLookupFunction c ForDefinition m")
  note r = getAddrOfMethodLookupFunction_result[OF wf g]
  from fresh have nd: "definedBody m (forMethodLookupFunction c) = None"
    by (simp add: definedBody_def)
  from r nd have decl: "isDeclaration (Functions m0 ! f)" by (simp add: isDeclaration_def)
  from r have sp0: "sameProgram m m0" by blast
  from r wfv have wfv0: "wellFormedVars m0" by (simp add: wellFormedVars_def)
  from g fresh have sig: "fnSignature (Functions m0 ! f) = 2"
    by (auto simp: getAddrOfMethodLookupFunction_def createFunction_def Let_def)
  have ps: "collectParameters (newIRGenFunction m0 f) = [Argument 0, Argument 1]"
    by (simp add: collectParameters_def newIRGenFunction_def sig upt_rec)
  from vt sp0 have vt0:
    "\<forall>d \<in> set (filter (hasPublicVisibility (IGM (newIRGenFunction m0 f)))
        (notedMethods (scannerLayout m0 c))).
      VTable (IGM (newIRGenFunction m0 f)) c d \<noteq> None \<and>
      getOverriddenWitnessTableEntry (IGM (newIRGenFunction m0 f)) d = d"
    by (simp add: fastPathMethods_def sameProgram_def newIRGenFunction_def)
  have wfi: "wellFormedVars (IGM (newIRGenFunction m0 f))"
    using wfv0 by (simp add: newIRGenFunction_def)
  from layout_succeeds[OF wfi vt0, of "Argument 1"] obtain igf1 where
    l: "layout c (Argument 1) (scannerLayout m0 c) (newIRGenFunction m0 f) = Some igf1"
    by blast
  have "\<exists>igf. emitMethodLookupFunctionBody c (newIRGenFunction m0 f) = Some igf"
    using l ps
    by (simp add: emitMethodLookupFunctionBody_def claimNext_def newIRGenFunction_def)
  with g decl show ?thesis
    by (auto simp: emitMethodLookupFunction_def Let_def)
qed

lemma example_class_module:
  "wellFormed exampleClassModule \<and> wellFormedVars exampleClassModule \<and>
   definedBody exampleClassModule (forMethodLookupFunction 0) = None"
  by (simp add: wellFormed_def wellFormedVars_def definedBody_def exampleClassModule_def)

lemma example_lookup_emitted: "\<exists>m'. emitMethodLookupFunction 0 exampleClassModule = Some m'"
  by (simp add: emitMethodLookupFunction_def getAddrOfMethodLookupFunction_def
      updateLinkageForDefinition_def isDeclaration_def emitMethodLookupFunctionBody_def
      newIRGenFunction_def collectParameters_def claimNext_def exampleClassModule_def
      noteNonoverriddenMethod_def getAddrOfMethodDescriptor_def getAddrOfLLVMVariable_def
      buildF_def upt_rec Let_def)

lemma example_fastPathMethods: "fastPathMethods exampleClassModule 0 = [1, 4]"
  by (simp add: fastPathMethods_def exampleClassModule_def)

lemma example_lookup_body:
  "map (fastPathBranch exampleClassModule 0 (Argument 1)) [1, 4] @
     [CreateRet (CallRuntime LookUpClassMethodFn
        [Argument 0, Argument 1, GlobalAddr (forTypeContextDescriptor 0)])] =
   exampleLookupBody"
  by (simp add: fastPathBranch_def signedImplementation_def exampleClassModule_def
      exampleLookupBody_def)

lemma example_staticResult:
  "staticResult exampleClassModule 0 1 = Signed (FnPtr 11) 2 101"
  "staticResult exampleClassModule 0 4 = Signed (FnPtr 14) 2 104"
  by (simp_all add: staticResult_def exampleClassModule_def)

lemma example_runtime:
  "exampleRuntime (Object 0) (methodDescriptorAddr 2) (typeContextDescriptorAddr 0) =
     Some (Signed (FnPtr 12) 2 102)"
  "exampleRuntime (Object 1) (methodDescriptorAddr 1) (typeContextDescriptorAddr 0) =
     Some (Signed (FnPtr 11) 2 101)"
  "exampleRuntime (Object 1) (methodDescriptorAddr 2) (typeContextDescriptorAddr 0) =
     Some (Signed (FnPtr 22) 2 102)"
  "exampleRuntime (Object 1) (methodDescriptorAddr 3) (typeContextDescriptorAddr 0) =
     Some (Signed (FnPtr 13) 2 103)"
  "exampleRuntime (Object 1) (methodDescriptorAddr 4) (typeContextDescriptorAddr 0) =
     Some (Signed (FnPtr 14) 2 104)"
  "exampleRuntime (Object 1) (methodDescriptorAddr 5) (typeContextDescriptorAddr 0) = None"
  by (simp_all add: exampleRuntime_def lookUpClassMethod_def tableEntry_def exampleTables_def
      exampleLayoutData_def methodDescriptorAddr_def)


text \<open>
  C4. Defining the lookup function of a class gives it this body: one
  descriptor-equality branch per non-overridden method with public visibility, in table
  order, each comparing the descriptor argument with the address of the method's
  descriptor, which the definition declares in the module, followed by the return of a
  call of the runtime lookup routine on the two arguments and the class description. A
  call of the function with the descriptor of one of these methods returns the
  implementation of the method's vtable entry, signed with the method's discriminator
  when a schema for class methods is configured; a call with any other descriptor returns
  what the runtime routine returns.
\<close>

theorem lookup_function_fast_path_then_runtime:
  assumes "wellFormed m" and "wellFormedVars m"
    and "definedBody m (forMethodLookupFunction c) = None"
    and "emitMethodLookupFunction c m = Some m'"
  shows "definedBody m' (forMethodLookupFunction c) =
           Some (map (fastPathBranch m c (Argument 1)) (fastPathMethods m c) @
             [CreateRet (CallRuntime LookUpClassMethodFn
                [Argument 0, Argument 1, GlobalAddr (forTypeContextDescriptor c)])]) \<and>
         (\<forall>d \<in> set (fastPathMethods m c).
            VTable m c d \<noteq> None \<and> GlobalVars m' (forMethodDescriptor d) \<noteq> None \<and>
            runLookupFunction m' c rt metadata (methodDescriptorAddr d) =
              Some (staticResult m c d)) \<and>
         (method \<notin> methodDescriptorAddr ` set (fastPathMethods m c) \<longrightarrow>
            runLookupFunction m' c rt metadata method =
              rt metadata method (typeContextDescriptorAddr c))"
proof -
  note d = emitMethodLookupFunction_defined[OF assms]
  from d have body: "definedBody m' (forMethodLookupFunction c) =
       Some (map (fastPathBranch m c (Argument 1)) (fastPathMethods m c) @
         [CreateRet (CallRuntime LookUpClassMethodFn
            [Argument 0, Argument 1, GlobalAddr (forTypeContextDescriptor c)])])"
    by blast
  from d have decl: "\<forall>d \<in> set (fastPathMethods m c).
        VTable m c d \<noteq> None \<and> GlobalVars m' (forMethodDescriptor d) \<noteq> None"
    by blast
  from body decl run_lookup_match[OF body] run_lookup_fallthrough[OF body]
  show ?thesis by blast
qed

theorem lookup_function_fast_path_then_runtime_witness:
  "wellFormed exampleClassModule \<and> wellFormedVars exampleClassModule \<and>
   definedBody exampleClassModule (forMethodLookupFunction 0) = None \<and>
   map_option (\<lambda>m. definedBody m (forMethodLookupFunction 0))
     (emitMethodLookupFunction 0 exampleClassModule) = Some (Some exampleLookupBody) \<and>
   map_option (\<lambda>m. GlobalVars m (forMethodDescriptor 4) \<noteq> None)
     (emitMethodLookupFunction 0 exampleClassModule) = Some True \<and>
   map_option (\<lambda>m. runLookupFunction m 0 exampleRuntime (Object 1) (methodDescriptorAddr 4))
     (emitMethodLookupFunction 0 exampleClassModule) = Some (Some (Signed (FnPtr 14) 2 104)) \<and>
   map_option (\<lambda>m. runLookupFunction m 0 exampleRuntime (Object 1) (methodDescriptorAddr 2))
     (emitMethodLookupFunction 0 exampleClassModule) = Some (Some (Signed (FnPtr 22) 2 102))"
proof -
  from example_lookup_emitted obtain m' where
    e: "emitMethodLookupFunction 0 exampleClassModule = Some m'" by blast
  note ex = example_class_module
  from ex have wf: "wellFormed exampleClassModule" and wfv: "wellFormedVars exampleClassModule"
    and nd: "definedBody exampleClassModule (forMethodLookupFunction 0) = None"
    by blast+
  have notin: "methodDescriptorAddr 2 \<notin> methodDescriptorAddr ` set [1, 4]"
    by (simp add: methodDescriptorAddr_def)
  note th = lookup_function_fast_path_then_runtime[OF wf wfv nd e,
      of exampleRuntime "Object 1" "methodDescriptorAddr 2", unfolded example_fastPathMethods]
  from th have a: "definedBody m' (forMethodLookupFunction 0) = Some exampleLookupBody"
    unfolding example_lookup_body by blast
  from th have ball: "\<forall>d \<in> set [1, 4].
      VTable exampleClassModule 0 d \<noteq> None \<and> GlobalVars m' (forMethodDescriptor d) \<noteq> None \<and>
      runLookupFunction m' 0 exampleRuntime (Object 1) (methodDescriptorAddr d) =
        Some (staticResult exampleClassModule 0 d)"
    by blast
  from ball have b: "GlobalVars m' (forMethodDescriptor 4) \<noteq> None"
    and c: "runLookupFunction m' 0 exampleRuntime (Object 1) (methodDescriptorAddr 4) =
      Some (staticResult exampleClassModule 0 4)"
    by simp_all
  from th notin have f: "runLookupFunction m' 0 exampleRuntime (Object 1) (methodDescriptorAddr 2) =
      exampleRuntime (Object 1) (methodDescriptorAddr 2) (typeContextDescriptorAddr 0)"
    by blast
  from ex a b c[unfolded example_staticResult] f[unfolded example_runtime]
  show ?thesis by (simp add: e)
qed



section \<open>Argument preparation keeps the method and builds marshalling instructions only\<close>

lemmas thunk_update_defs = build_def addParams_def setCallerErrorResultSlot_def

lemma marshalled_refl: "marshalled t t"
  by (simp add: marshalled_def sameMethod_def)

lemma marshalled_trans: "marshalled a b \<Longrightarrow> marshalled b c \<Longrightarrow> marshalled a c"
  by (auto simp: marshalled_def sameMethod_def)

lemma takeWitnessMetadata_marshalled:
  "takeWitnessMetadata (orig, t) = Some (orig', t') \<Longrightarrow> marshalled t t'"
  by (auto simp: takeWitnessMetadata_def marshalled_def sameMethod_def
      split: if_splits Option.bind_splits)

lemma takeErrorResult_marshalled:
  "takeErrorResult (orig, t) = Some (orig', t') \<Longrightarrow> marshalled t t'"
  by (auto simp: takeErrorResult_def marshalled_def sameMethod_def thunk_update_defs
      split: if_splits Option.bind_splits)

lemma transferCoroutineBuffer_marshalled:
  "transferCoroutineBuffer (orig, t) = Some (orig', t') \<Longrightarrow> marshalled t t'"
  by (auto simp: transferCoroutineBuffer_def marshalled_def sameMethod_def
      split: if_splits Option.bind_splits)

lemma takeSelf_marshalled:
  "takeSelf (orig, t) = Some (orig', t') \<Longrightarrow> marshalled t t'"
  by (auto simp: takeSelf_def marshalled_def sameMethod_def
      split: if_splits Option.bind_splits)

lemma claimIndirectReturnSlot_marshalled:
  "claimIndirectReturnSlot (orig, t) = Some (orig', t') \<Longrightarrow> marshalled t t'"
  by (auto simp: claimIndirectReturnSlot_def marshalled_def sameMethod_def
      split: if_splits Option.bind_splits)

lemma transferIndirectResults_marshalled:
  "transferIndirectResults (orig, t) = Some (orig', t') \<Longrightarrow> marshalled t t'"
  by (auto simp: transferIndirectResults_def marshalled_def sameMethod_def
      split: if_splits Option.bind_splits)

lemma prepareParameter_marshalled:
  "prepareParameter p (orig, t) = Some (orig', t') \<Longrightarrow> marshalled t t'"
  by (auto simp: prepareParameter_def marshalled_def sameMethod_def thunk_update_defs Let_def
      split: if_splits Option.bind_splits)

lemma prepareParameters_marshalled:
  "prepareParameters ps (orig, t) = Some (orig', t') \<Longrightarrow> marshalled t t'"
proof (induction ps arbitrary: orig t)
  case Nil
  then show ?case by (simp add: marshalled_refl)
next
  case (Cons p ps)
  from Cons.prems obtain o1 t1 where
    a: "prepareParameter p (orig, t) = Some (o1, t1)" and
    b: "prepareParameters ps (o1, t1) = Some (orig', t')"
    by (auto split: Option.bind_splits)
  from prepareParameter_marshalled[OF a] Cons.IH[OF b] show ?case
    by (rule marshalled_trans)
qed

lemma passAlong_marshalled: "marshalled t (passAlong (orig, t))"
  by (simp add: passAlong_def claimAll_def marshalled_def sameMethod_def thunk_update_defs)

lemma prepareArgumentsSync_marshalled:
  assumes "prepareArgumentsSync t = Some t'"
  shows "marshalled t t'"
proof -
  from assms obtain o1 t1 o2 t2 o3 t3 o4 t4 o5 t5 o6 t6 o7 t7 where
    s1: "takeWitnessMetadata (collectParameters (IGF t), t) = Some (o1, t1)" and
    s2: "takeErrorResult (o1, t1) = Some (o2, t2)" and
    s3: "transferCoroutineBuffer (o2, t2) = Some (o3, t3)" and
    s4: "takeSelf (o3, t3) = Some (o4, t4)" and
    s5: "claimIndirectReturnSlot (o4, t4) = Some (o5, t5)" and
    s6: "transferIndirectResults (o5, t5) = Some (o6, t6)" and
    s7: "prepareParameters (butlast (getParameters (origTy t6))) (o6, t6) = Some (o7, t7)" and
    s8: "t' = passAlong (o7, t7)"
    by (auto simp: prepareArgumentsSync_def split: Option.bind_splits)
  note ms = takeWitnessMetadata_marshalled[OF s1] takeErrorResult_marshalled[OF s2]
    transferCoroutineBuffer_marshalled[OF s3] takeSelf_marshalled[OF s4]
    claimIndirectReturnSlot_marshalled[OF s5] transferIndirectResults_marshalled[OF s6]
    prepareParameters_marshalled[OF s7] passAlong_marshalled[of t7 o7]
  show ?thesis unfolding s8 using ms by (blast intro: marshalled_trans)
qed

lemma build_addParams: "build is (addParams vs t) = addParams vs (build is t)"
  by (simp add: thunk_update_defs)

lemma loadFieldsIntoParams_closed:
  "loadFieldsIntoParams lay ixs t =
     addParams (map (\<lambda>i. Load (Project (lay i) AsyncContext)) ixs)
       (build (concat (map (\<lambda>i. [ProjectField (lay i), CreateLoad (Project (lay i) AsyncContext)]) ixs)) t)"
  by (induction ixs arbitrary: t) (simp_all add: loadContextField_def thunk_update_defs)

lemma prepareArgumentsAsync_marshalled:
  assumes "prepareArgumentsAsync t = Some t'"
  shows "marshalled t t'"
  using assms
  by (auto simp: prepareArgumentsAsync_def loadLocalContext_def loadWitnessMetadata_def
      projectErrorSlot_def saveBindings_def loadFieldsIntoParams_closed loadContextField_def
      marshalled_def sameMethod_def thunk_update_defs Let_def list_all_iff
      split: if_splits Option.bind_splits)

section \<open>The thunk registry\<close>

lemma getAddrOfDispatchThunk_existing:
  "GlobalFuncs m (forDispatchThunk ref) = Some f \<Longrightarrow>
     getAddrOfDispatchThunk ref fd m =
       (f, if fd = ForDefinition then updateLinkageForDefinition f m else m)"
  by (simp add: getAddrOfDispatchThunk_def)

lemma getAddrOfDispatchThunk_new:
  "GlobalFuncs m (forDispatchThunk ref) = None \<Longrightarrow>
     getAddrOfDispatchThunk ref fd m =
       (length (Functions m),
        m\<lparr>Functions := Functions m @
             [\<lparr>fnName = forDispatchThunk ref, fnLinkage = fd,
               fnSignature = numArguments (Types m ref), fnBody = None\<rparr>],
          GlobalFuncs := (GlobalFuncs m)(forDispatchThunk ref \<mapsto> length (Functions m))\<rparr>)"
  by (simp add: getAddrOfDispatchThunk_def createFunction_def Let_def)

lemma getAddrOfDispatchThunk_entry:
  "GlobalFuncs (snd (getAddrOfDispatchThunk ref fd m)) (forDispatchThunk ref) =
     Some (fst (getAddrOfDispatchThunk ref fd m))"
  by (cases "GlobalFuncs m (forDispatchThunk ref)")
     (simp_all add: getAddrOfDispatchThunk_existing getAddrOfDispatchThunk_new
        updateLinkageForDefinition_def)

lemma getAddrOfDispatchThunk_same_entry:
  "fst (getAddrOfDispatchThunk ref fd' (snd (getAddrOfDispatchThunk ref fd m))) =
     fst (getAddrOfDispatchThunk ref fd m)"
  using getAddrOfDispatchThunk_entry[of ref fd m]
  by (simp add: getAddrOfDispatchThunk_existing)

lemma map_update_same: "(map g xs)[a := g (xs ! a)] = map g xs"
proof (cases "a < length xs")
  case True
  then have "g (xs ! a) = map g xs ! a" by simp
  then show ?thesis by (simp only: list_update_id)
next
  case False
  then show ?thesis by (simp add: list_update_beyond)
qed

lemma getAddrOfDispatchThunk_bodies:
  "map fnBody (Functions (snd (getAddrOfDispatchThunk ref fd m))) =
     map fnBody (Functions m) @
       (if GlobalFuncs m (forDispatchThunk ref) = None then [None] else [])"
  by (cases "GlobalFuncs m (forDispatchThunk ref)")
     (simp_all add: getAddrOfDispatchThunk_existing getAddrOfDispatchThunk_new
        updateLinkageForDefinition_def map_update map_update_same)

lemma updateLinkageForDefinition_defined:
  assumes "wellFormed m" "GlobalFuncs m entity = Some f" "\<not> isDeclaration (Functions m ! f)"
  shows "updateLinkageForDefinition f m = m"
proof -
  from assms have "fnLinkage (Functions m ! f) = ForDefinition"
    by (auto simp: wellFormed_def isDeclaration_def)
  then have "(Functions m ! f)\<lparr>fnLinkage := ForDefinition\<rparr> = Functions m ! f"
    by (metis Function.surjective Function.update_convs(2))
  then show ?thesis by (simp add: updateLinkageForDefinition_def)
qed

lemma emitDispatchThunk_defined:
  assumes "wellFormed m" "GlobalFuncs m (forDispatchThunk ref) = Some f"
    "\<not> isDeclaration (Functions m ! f)"
  shows "emitDispatchThunk ref m = Some m"
  using assms updateLinkageForDefinition_defined[OF assms]
  by (simp add: emitDispatchThunk_def getAddrOfDispatchThunk_existing)

lemma wellFormed_getAddrOfDispatchThunk:
  assumes "wellFormed m"
  shows "wellFormed (snd (getAddrOfDispatchThunk ref fd m))"
proof (cases "GlobalFuncs m (forDispatchThunk ref)")
  case None
  with assms show ?thesis
    by (auto simp: getAddrOfDispatchThunk_new wellFormed_def nth_append less_Suc_eq)
next
  case (Some f)
  with assms show ?thesis
    by (auto simp: getAddrOfDispatchThunk_existing wellFormed_def updateLinkageForDefinition_def
        nth_list_update)
qed

lemma emitAsyncEntry_functions:
  "emitAsyncEntry t = Some t' \<Longrightarrow>
     sameMethod t (t'\<lparr>IGF := (IGF t')\<lparr>IGM := IGM (IGF t)\<rparr>\<rparr>) \<and>
     Functions (IGM (IGF t')) = Functions (IGM (IGF t)) \<and>
     GlobalFuncs (IGM (IGF t')) = GlobalFuncs (IGM (IGF t))"
  by (auto simp: emitAsyncEntry_def emitAsyncFunctionPointer_def defineAsyncFunctionPointer_def
      getAddrOfLLVMVariable_def setTrueConstGlobal_def sameMethod_def thunk_update_defs Let_def
      split: if_splits Option.bind_splits option.splits)

lemma lookupMethod_marshalled:
  "lookupMethod t = Some (callee, t') \<Longrightarrow> sameMethod t t'"
  by (auto simp: lookupMethod_def sameMethod_def thunk_update_defs Let_def
      split: if_splits Option.bind_splits)

lemma emitCallAndReturn_sameMethod:
  "emitCallAndReturn t = Some t' \<Longrightarrow> sameMethod t t'"
  by (auto simp: emitCallAndReturn_def lookupMethod_def sameMethod_def thunk_update_defs Let_def
      split: if_splits Option.bind_splits)

lemma emit_functions:
  assumes "emit t = Some t'"
  shows "Functions (IGM (IGF t')) = Functions (IGM (IGF t)) \<and>
         GlobalFuncs (IGM (IGF t')) = GlobalFuncs (IGM (IGF t))"
proof -
  from assms obtain t1 t2 where
    a: "emitAsyncEntry t = Some t1" and b: "prepareArguments t1 = Some t2" and
    c: "emitCallAndReturn t2 = Some t'"
    by (auto simp: emit_def split: Option.bind_splits)
  from b have "marshalled t1 t2"
    by (auto simp: prepareArguments_def prepareArgumentsSync_marshalled
        prepareArgumentsAsync_marshalled split: if_splits)
  with emitCallAndReturn_sameMethod[OF c] emitAsyncEntry_functions[OF a]
  show ?thesis by (simp add: marshalled_def sameMethod_def)
qed

lemma emitDispatchThunk_result:
  assumes wf: "wellFormed m" and e: "emitDispatchThunk ref m = Some m1"
  shows "wellFormed m1 \<and>
         (\<exists>f. GlobalFuncs m1 (forDispatchThunk ref) = Some f \<and> \<not> isDeclaration (Functions m1 ! f))"
proof -
  obtain f m0 where g: "getAddrOfDispatchThunk ref ForDefinition m = (f, m0)"
    by (cases "getAddrOfDispatchThunk ref ForDefinition m")
  have wf0: "wellFormed m0"
    using wellFormed_getAddrOfDispatchThunk[OF wf, of ref ForDefinition] g by simp
  have ent: "GlobalFuncs m0 (forDispatchThunk ref) = Some f"
    using getAddrOfDispatchThunk_entry[of ref ForDefinition m] g by simp
  then have fl: "f < length (Functions m0)" using wf0 by (auto simp: wellFormed_def)
  have link: "fnLinkage (Functions m0 ! f) = ForDefinition"
  proof (cases "GlobalFuncs m (forDispatchThunk ref)")
    case None
    with g show ?thesis by (auto simp: getAddrOfDispatchThunk_new)
  next
    case (Some f')
    with g wf show ?thesis
      by (auto simp: getAddrOfDispatchThunk_existing updateLinkageForDefinition_def wellFormed_def)
  qed
  show ?thesis
  proof (cases "isDeclaration (Functions m0 ! f)")
    case False
    with e g have "m1 = m0" by (simp add: emitDispatchThunk_def)
    with wf0 ent False show ?thesis by simp
  next
    case True
    with e g obtain t where
      t: "emit (newIRGenThunk (newIRGenFunction m0 f) ref) = Some t" and
      m1: "m1 = (IGM (IGF t))\<lparr>Functions := (Functions (IGM (IGF t)))
             [f := (Functions (IGM (IGF t)) ! f)\<lparr>fnBody := Some (Builder (IGF t))\<rparr>]\<rparr>"
      by (auto simp: emitDispatchThunk_def Let_def split: Option.bind_splits)
    from emit_functions[OF t] have
      fs: "Functions (IGM (IGF t)) = Functions m0" and gf: "GlobalFuncs (IGM (IGF t)) = GlobalFuncs m0"
      by (simp_all add: newIRGenThunk_def newIRGenFunction_def Let_def)
    have "wellFormed m1"
      using wf0 fl link unfolding m1 wellFormed_def
      by (auto simp: fs gf nth_list_update)
    moreover have "GlobalFuncs m1 (forDispatchThunk ref) = Some f \<and> \<not> isDeclaration (Functions m1 ! f)"
      using ent fl unfolding m1 by (simp add: fs gf isDeclaration_def)
    ultimately show ?thesis by blast
  qed
qed

lemma emitDispatchThunk_twice:
  assumes "wellFormed m" "emitDispatchThunk ref m = Some m1"
  shows "emitDispatchThunk ref m1 = Some m1"
  using emitDispatchThunk_result[OF assms] emitDispatchThunk_defined by blast

lemma defineTimes_once:
  assumes "wellFormed m" "emitDispatchThunk ref m = Some m1"
  shows "defineTimes (Suc n) ref m = Some m1"
proof -
  have wf1: "wellFormed m1" using emitDispatchThunk_result[OF assms] by blast
  have again: "emitDispatchThunk ref m1 = Some m1" by (rule emitDispatchThunk_twice[OF assms])
  have "defineTimes k ref m1 = Some m1" for k
    by (induction k) (simp_all add: again)
  with assms(2) show ?thesis by simp
qed

lemma getAddrOfDispatchThunk_keeps:
  "GlobalFuncs m entity = Some f \<Longrightarrow>
     GlobalFuncs (snd (getAddrOfDispatchThunk ref fd m)) entity = Some f"
  by (cases "GlobalFuncs m (forDispatchThunk ref)")
     (auto simp: getAddrOfDispatchThunk_existing getAddrOfDispatchThunk_new
        updateLinkageForDefinition_def)

lemma emitDispatchThunk_keeps:
  assumes "emitDispatchThunk ref m = Some m1" "GlobalFuncs m entity = Some f"
  shows "GlobalFuncs m1 entity = Some f"
proof -
  obtain g m0 where g: "getAddrOfDispatchThunk ref ForDefinition m = (g, m0)"
    by (cases "getAddrOfDispatchThunk ref ForDefinition m")
  have k: "GlobalFuncs m0 entity = Some f"
    using getAddrOfDispatchThunk_keeps[OF assms(2), of ref ForDefinition] g by simp
  show ?thesis
  proof (cases "isDeclaration (Functions m0 ! g)")
    case False
    with assms(1) g k show ?thesis by (simp add: emitDispatchThunk_def)
  next
    case True
    with assms(1) g obtain t where
      t: "emit (newIRGenThunk (newIRGenFunction m0 g) ref) = Some t" and
      m1: "m1 = (IGM (IGF t))\<lparr>Functions := (Functions (IGM (IGF t)))
             [g := (Functions (IGM (IGF t)) ! g)\<lparr>fnBody := Some (Builder (IGF t))\<rparr>]\<rparr>"
      by (auto simp: emitDispatchThunk_def Let_def split: Option.bind_splits)
    from emit_functions[OF t] k show ?thesis
      unfolding m1 by (simp add: newIRGenThunk_def newIRGenFunction_def Let_def)
  qed
qed

lemmas example_defs = exampleModule_def exampleType_def exampleLayout_def
  exampleDirectSchema_def exampleIndirectSchema_def

lemmas emit_defs = emitDispatchThunk_def getAddrOfDispatchThunk_def createFunction_def
  updateLinkageForDefinition_def isDeclaration_def newIRGenThunk_def newIRGenFunction_def
  emit_def emitAsyncEntry_def emitAsyncFunctionPointer_def defineAsyncFunctionPointer_def
  getAddrOfLLVMVariable_def setTrueConstGlobal_def prepareArguments_def
  prepareArgumentsSync_def prepareArgumentsAsync_def takeWitnessMetadata_def
  takeErrorResult_def transferCoroutineBuffer_def takeSelf_def claimIndirectReturnSlot_def
  transferIndirectResults_def prepareParameter_def passAlong_def loadLocalContext_def
  loadWitnessMetadata_def projectErrorSlot_def saveBindings_def loadContextField_def
  emitCallAndReturn_def lookupMethod_def collectParameters_def takeLast_def claimNext_def
  transferInto_def claimAll_def thunk_update_defs Let_def upt_rec

lemma example_thunk_defined: "emitDispatchThunk 0 exampleModule \<noteq> None"
  by (simp add: emit_defs example_defs)

lemma example_wellFormed: "wellFormed exampleModule"
  by (simp add: wellFormed_def exampleModule_def)

text \<open>
  C2. In a well-formed module, two requests for the entry point of the thunk of a method
  reference return the same function, also when a thunk was defined in between, and
  such a request gives no function a body: the bodies of the module are the ones it had,
  and a function it creates is a declaration. A request to define the thunk changes
  nothing when the function has a body. When it succeeds, the function has a body, the
  same request on the result changes nothing, and any sequence of one or more such
  requests ends in the module the first one produced.
\<close>

theorem dispatch_thunk_declared_and_defined_once:
  assumes "wellFormed m"
  shows "fst (getAddrOfDispatchThunk ref fd' (snd (getAddrOfDispatchThunk ref fd m))) =
           fst (getAddrOfDispatchThunk ref fd m) \<and>
         (emitDispatchThunk ref' (snd (getAddrOfDispatchThunk ref fd m)) = Some m2 \<longrightarrow>
            fst (getAddrOfDispatchThunk ref fd' m2) = fst (getAddrOfDispatchThunk ref fd m)) \<and>
         map fnBody (Functions (snd (getAddrOfDispatchThunk ref fd m))) =
           map fnBody (Functions m) @
             (if GlobalFuncs m (forDispatchThunk ref) = None then [None] else []) \<and>
         (GlobalFuncs m (forDispatchThunk ref) = Some f \<and> \<not> isDeclaration (Functions m ! f) \<longrightarrow>
            emitDispatchThunk ref m = Some m) \<and>
         (emitDispatchThunk ref m = Some m1 \<longrightarrow>
            wellFormed m1 \<and>
            (\<exists>g. GlobalFuncs m1 (forDispatchThunk ref) = Some g \<and>
                 \<not> isDeclaration (Functions m1 ! g)) \<and>
            emitDispatchThunk ref m1 = Some m1 \<and>
            defineTimes (Suc n) ref m = Some m1)"
proof -
  have a: "emitDispatchThunk ref' (snd (getAddrOfDispatchThunk ref fd m)) = Some m2 \<Longrightarrow>
      fst (getAddrOfDispatchThunk ref fd' m2) = fst (getAddrOfDispatchThunk ref fd m)"
    using emitDispatchThunk_keeps[OF _ getAddrOfDispatchThunk_entry[of ref fd m], of ref' m2]
    by (simp add: getAddrOfDispatchThunk_existing)
  show ?thesis
    using a getAddrOfDispatchThunk_same_entry[of ref fd' fd m]
      getAddrOfDispatchThunk_bodies[of ref fd m]
      emitDispatchThunk_defined[OF assms, of ref f]
      emitDispatchThunk_result[OF assms, of ref m1]
      emitDispatchThunk_twice[OF assms, of ref m1]
      defineTimes_once[OF assms, of ref m1 n]
    by blast
qed

theorem dispatch_thunk_declared_and_defined_once_witness:
  "wellFormed exampleModule \<and>
   emitDispatchThunk 0 exampleModule \<noteq> None \<and>
   defineTimes (Suc 2) 0 exampleModule = emitDispatchThunk 0 exampleModule \<and>
   emitDispatchThunk 0 (the (emitDispatchThunk 0 exampleModule)) =
     emitDispatchThunk 0 exampleModule \<and>
   fst (getAddrOfDispatchThunk 0 ForDefinition
          (snd (getAddrOfDispatchThunk 0 NotForDefinition exampleModule))) =
     fst (getAddrOfDispatchThunk 0 NotForDefinition exampleModule)"
proof -
  from example_thunk_defined obtain m1 where e: "emitDispatchThunk 0 exampleModule = Some m1"
    by blast
  note th = dispatch_thunk_declared_and_defined_once[OF example_wellFormed,
      of 0 ForDefinition NotForDefinition 0 m1 0 m1 2]
  from th e have wf1: "wellFormed m1"
    and d: "defineTimes (Suc 2) 0 exampleModule = Some m1"
    and body: "\<exists>g. GlobalFuncs m1 (forDispatchThunk 0) = Some g \<and>
                 \<not> isDeclaration (Functions m1 ! g)"
    by blast+
  from body obtain g where g: "GlobalFuncs m1 (forDispatchThunk 0) = Some g"
    "\<not> isDeclaration (Functions m1 ! g)" by blast
  from dispatch_thunk_declared_and_defined_once[OF wf1, of 0 ForDefinition NotForDefinition
      0 m1 g m1 2] g
  have again: "emitDispatchThunk 0 m1 = Some m1" by blast
  from th have same: "fst (getAddrOfDispatchThunk 0 ForDefinition
          (snd (getAddrOfDispatchThunk 0 NotForDefinition exampleModule))) =
     fst (getAddrOfDispatchThunk 0 NotForDefinition exampleModule)" by blast
  from example_wellFormed e d again same show ?thesis by simp
qed

section \<open>Argument preparation\<close>

lemma projectedFields_append:
  "projectedFields (xs @ ys) = projectedFields xs @ projectedFields ys"
  by (induction xs rule: projectedFields.induct) simp_all

lemma loadedFields_append:
  "loadedFields (xs @ ys) = loadedFields xs @ loadedFields ys"
  by (induction xs rule: loadedFields.induct) simp_all

lemma projectedFields_loads:
  "projectedFields (concat (map (\<lambda>i. [ProjectField (lay i), CreateLoad (Project (lay i) AsyncContext)]) ixs)) =
     map lay ixs"
  by (induction ixs) simp_all

lemma loadedFields_loads:
  "loadedFields (concat (map (\<lambda>i. [ProjectField (lay i), CreateLoad (Project (lay i) AsyncContext)]) ixs)) =
     map lay ixs"
  by (induction ixs) simp_all

lemma prepareArgumentsAsync_closed:
  assumes "asyncLayout t = Some L" "\<not> isCoroutine t" "hasLocalContext L"
    "isWitnessMethod t \<longrightarrow> hasTrailingWitnesses L"
  shows "\<exists>t'. prepareArgumentsAsync t = Some t' \<and>
     Builder (IGF t') = Builder (IGF t) @
       [EmitCastTo, ProjectField LocalContextLayout, CreateLoad (Project LocalContextLayout AsyncContext)] @
       (if isWitnessMethod t then
          [EmitCastTo, ProjectField SelfMetadataLayout, CreateLoad (Project SelfMetadataLayout AsyncContext),
           ProjectField SelfWitnessTableLayout, CreateLoad (Project SelfWitnessTableLayout AsyncContext)]
        else []) @
       (if hasErrorResult (origTy t) then [ProjectField ErrorLayout] else []) @
       concat (map (\<lambda>i. [ProjectField (IndirectReturnLayout i), CreateLoad (Project (IndirectReturnLayout i) AsyncContext)])
         [0 ..< getIndirectReturnCount L]) @
       concat (map (\<lambda>i. [ProjectField (ArgumentLayout i), CreateLoad (Project (ArgumentLayout i) AsyncContext)])
         [0 ..< getArgumentCount L]) @
       (if hasBindings L then
          [ProjectField BindingsLayout,
           SaveBindings (Project BindingsLayout AsyncContext)
             (params t @ map (\<lambda>i. loaded (IndirectReturnLayout i)) [0 ..< getIndirectReturnCount L] @
              map (\<lambda>i. loaded (ArgumentLayout i)) [0 ..< getArgumentCount L])]
        else []) \<and>
     selfValue t' = Some (loaded LocalContextLayout) \<and>
     witnessMetadata t' =
       (if isWitnessMethod t then
          \<lparr>SelfMetadata = Some (loaded SelfMetadataLayout),
           SelfWitnessTable = Some (loaded SelfWitnessTableLayout)\<rparr>
        else witnessMetadata t) \<and>
     CallerErrorResultSlot (IGF t') =
       (if hasErrorResult (origTy t) then Some (Project ErrorLayout AsyncContext)
        else CallerErrorResultSlot (IGF t)) \<and>
     params t' =
       (if hasBindings L then bindingsSave L (Project BindingsLayout AsyncContext) else id)
         (params t @ map (\<lambda>i. loaded (IndirectReturnLayout i)) [0 ..< getIndirectReturnCount L] @
          map (\<lambda>i. loaded (ArgumentLayout i)) [0 ..< getArgumentCount L]) \<and>
     errorResult t' = errorResult t \<and> indirectReturnSlot t' = indirectReturnSlot t"
  using assms
  by (cases "isWitnessMethod t"; cases "hasErrorResult (origTy t)"; cases "hasBindings L")
     (simp_all add: prepareArgumentsAsync_def loadLocalContext_def loadWitnessMetadata_def
      projectErrorSlot_def saveBindings_def loadFieldsIntoParams_closed loadContextField_def
      thunk_update_defs Let_def loaded_def)

lemma build_build: "build ys (build xs t) = build (xs @ ys) t"
  by (simp add: thunk_update_defs)

lemma addParams_addParams: "addParams ys (addParams xs t) = addParams (xs @ ys) t"
  by (simp add: thunk_update_defs)

lemma build_Nil: "build [] t = t"
  by (simp add: thunk_update_defs)

lemma addParams_Nil: "addParams [] t = t"
  by (simp add: thunk_update_defs)

lemma prepareParameter_closed:
  assumes "length vs = nativeWidth p"
  shows "prepareParameter p (vs @ remaining, t) =
           Some (remaining, addParams (marshalParameter p vs) (build (marshalParameterInstrs p vs) t))"
proof (cases "isObject p")
  case False
  with assms obtain a where "vs = [a]"
    by (cases vs) (auto simp: nativeWidth_def)
  with False show ?thesis
    by (simp add: prepareParameter_def marshalParameter_def marshalParameterInstrs_def
        claimNext_def build_Nil)
next
  case True
  show ?thesis
  proof (cases "requiresIndirect (nativeParameterValueSchema p)")
    case ind: True
    with True assms obtain a where "vs = [a]"
      by (cases vs) (auto simp: nativeWidth_def)
    with True ind show ?thesis
      by (simp add: prepareParameter_def marshalParameter_def marshalParameterInstrs_def
          claimNext_def Let_def)
  next
    case dir: False
    show ?thesis
    proof (cases "schemaEmpty (nativeParameterValueSchema p)")
      case True
      with \<open>isObject p\<close> dir assms have "vs = []" by (simp add: nativeWidth_def)
      with True \<open>isObject p\<close> dir show ?thesis
        by (simp add: prepareParameter_def marshalParameter_def marshalParameterInstrs_def
            Let_def build_Nil addParams_Nil)
    next
      case False
      with \<open>isObject p\<close> dir assms
      have "length vs = schemaSize (nativeParameterValueSchema p)" by (simp add: nativeWidth_def)
      with False \<open>isObject p\<close> dir show ?thesis
        by (simp add: prepareParameter_def marshalParameter_def marshalParameterInstrs_def
            transferInto_def Let_def)
    qed
  qed
qed

lemma prepareParameters_closed:
  "list_all2 (\<lambda>p vs. length vs = nativeWidth p) ps pvals \<Longrightarrow>
     prepareParameters ps (concat pvals @ remaining, t) =
       Some (remaining,
             addParams (concat (map2 marshalParameter ps pvals))
               (build (concat (map2 marshalParameterInstrs ps pvals)) t))"
proof (induction ps pvals arbitrary: t rule: list_all2_induct)
  case Nil
  show ?case by (simp add: build_Nil addParams_Nil)
next
  case (Cons p vs ps pvals)
  show ?case
    using Cons.hyps(1) Cons.IH
    by (simp add: prepareParameter_closed build_addParams build_build addParams_addParams)
qed

lemma takeLast_Cons:
  "takeLast (x # xs) =
     (if xs = [] then Some (x, []) else map_option (\<lambda>(v, r). (v, x # r)) (takeLast xs))"
  by (simp add: takeLast_def)

lemma takeLast_append:
  "takeLast (xs @ ys) =
     (if ys = [] then takeLast xs else map_option (\<lambda>(v, r). (v, xs @ r)) (takeLast ys))"
  by (simp add: takeLast_def butlast_append)

lemma transferInto_append:
  "length xs = n \<Longrightarrow> transferInto (xs @ ys) dst n = Some (ys, dst @ xs)"
  by (simp add: transferInto_def)

lemma transferInto_Cons: "transferInto (x # xs) dst (Suc 0) = Some (xs, dst @ [x])"
  by (simp add: transferInto_def)

lemma claimNext_Cons: "claimNext (x # xs) = Some (x, xs)"
  by (simp add: claimNext_def)

lemma prepareArgumentsSync_closed:
  assumes layout: "collectParameters (IGF t) =
      (if isCoroutine t then [buffer] else []) @
      (if requiresIndirect (nativeReturnValueSchema (origTy t)) then [dest] else []) @
      ires @ concat pvals @ rest @ [self] @
      (if hasErrorResult (origTy t) then [slot] else []) @
      (if isWitnessMethod t then [metadata, wtable] else [])"
    and ires: "length ires = getNumIndirectSILResults (origTy t)"
    and pvals: "list_all2 (\<lambda>p vs. length vs = nativeWidth p) (butlast (getParameters (origTy t))) pvals"
  shows "\<exists>t'. prepareArgumentsSync t = Some t' \<and>
     witnessMetadata t' =
       (if isWitnessMethod t then \<lparr>SelfMetadata = Some metadata, SelfWitnessTable = Some wtable\<rparr>
        else witnessMetadata t) \<and>
     errorResult t' = (if hasErrorResult (origTy t) then Some slot else errorResult t) \<and>
     CallerErrorResultSlot (IGF t') =
       (if hasErrorResult (origTy t) then Some slot else CallerErrorResultSlot (IGF t)) \<and>
     selfValue t' = Some self \<and>
     indirectReturnSlot t' =
       (if requiresIndirect (nativeReturnValueSchema (origTy t)) then Some dest
        else indirectReturnSlot t) \<and>
     params t' =
       params t @ (if isCoroutine t then [buffer] else []) @ ires @
       concat (map2 marshalParameter (butlast (getParameters (origTy t))) pvals) @ rest \<and>
     Builder (IGF t') =
       Builder (IGF t) @
       concat (map2 marshalParameterInstrs (butlast (getParameters (origTy t))) pvals)"
  using assms
  by (cases "isWitnessMethod t"; cases "hasErrorResult (origTy t)"; cases "isCoroutine t";
      cases "requiresIndirect (nativeReturnValueSchema (origTy t))")
     (simp_all add: prepareArgumentsSync_def takeWitnessMetadata_def takeErrorResult_def
        transferCoroutineBuffer_def takeSelf_def claimIndirectReturnSlot_def
        transferIndirectResults_def passAlong_def claimAll_def takeLast_Cons takeLast_append
        transferInto_append transferInto_Cons claimNext_Cons prepareParameters_closed
        thunk_update_defs)

lemma example_sync_thunk:
  "\<not> isAsync (exampleThunk 2) \<and> isCoroutine (exampleThunk 2) \<and>
   isWitnessMethod (exampleThunk 2) \<and> hasErrorResult (origTy (exampleThunk 2)) \<and>
   requiresIndirect (nativeReturnValueSchema (origTy (exampleThunk 2))) \<and>
   getNumIndirectSILResults (origTy (exampleThunk 2)) = 1 \<and>
   params (exampleThunk 2) = [] \<and>
   butlast (getParameters (origTy (exampleThunk 2))) =
     [\<lparr>paramType = 7, isObject = True, nativeParameterValueSchema = exampleIndirectSchema\<rparr>,
      \<lparr>paramType = 8, isObject = True, nativeParameterValueSchema = exampleDirectSchema\<rparr>,
      \<lparr>paramType = 9, isObject = False, nativeParameterValueSchema = exampleDirectSchema\<rparr>] \<and>
   collectParameters (IGF (exampleThunk 2)) = map Argument [0, 1, 2, 3, 4, 5, 6, 7, 8, 9, 10, 11]"
  by (simp add: exampleThunk_def emit_defs example_defs)

text \<open>
  C5, as amended. On the non-asynchronous path, let the incoming values be, from the
  front: the resume buffer (for a coroutine), the return destination (when the native
  schema of the direct result requires indirect return), one address for each indirect
  result of the function, the native values of the declared parameters but the receiver,
  each covering as many values as its schema says, any remaining values, the receiver,
  the error slot (when the function type has an error result), and the type descriptor
  followed by the witness table (for a protocol requirement). Then argument preparation
  succeeds: the witness table and the type descriptor, the error slot (which is also
  installed as the caller's error slot), the receiver and the return destination are the
  values at these positions, and the argument stream is the resume buffer, the addresses
  of the indirect results, the declared parameters marshalled in declaration order (a
  load-as-take from the address for a schema that requires indirect passing, a mapping
  from the native schema for a register run, the address itself for an address
  parameter), and the remaining values.
\<close>

theorem sync_arguments_stripped_in_order:
  assumes "\<not> isAsync t"
    and "collectParameters (IGF t) =
      (if isCoroutine t then [buffer] else []) @
      (if requiresIndirect (nativeReturnValueSchema (origTy t)) then [dest] else []) @
      ires @ concat pvals @ rest @ [self] @
      (if hasErrorResult (origTy t) then [slot] else []) @
      (if isWitnessMethod t then [metadata, wtable] else [])"
    and "length ires = getNumIndirectSILResults (origTy t)"
    and "list_all2 (\<lambda>p vs. length vs = nativeWidth p) (butlast (getParameters (origTy t))) pvals"
  shows "\<exists>t'. prepareArguments t = Some t' \<and>
     witnessMetadata t' =
       (if isWitnessMethod t then \<lparr>SelfMetadata = Some metadata, SelfWitnessTable = Some wtable\<rparr>
        else witnessMetadata t) \<and>
     errorResult t' = (if hasErrorResult (origTy t) then Some slot else errorResult t) \<and>
     CallerErrorResultSlot (IGF t') =
       (if hasErrorResult (origTy t) then Some slot else CallerErrorResultSlot (IGF t)) \<and>
     selfValue t' = Some self \<and>
     indirectReturnSlot t' =
       (if requiresIndirect (nativeReturnValueSchema (origTy t)) then Some dest
        else indirectReturnSlot t) \<and>
     params t' =
       params t @ (if isCoroutine t then [buffer] else []) @ ires @
       concat (map2 marshalParameter (butlast (getParameters (origTy t))) pvals) @ rest \<and>
     Builder (IGF t') =
       Builder (IGF t) @
       concat (map2 marshalParameterInstrs (butlast (getParameters (origTy t))) pvals)"
  using prepareArgumentsSync_closed[OF assms(2,3,4)] assms(1)
  by (simp add: prepareArguments_def)

theorem sync_arguments_stripped_in_order_witness:
  "map_option selfValue (prepareArguments (exampleThunk 2)) = Some (Some (Argument 8)) \<and>
   map_option witnessMetadata (prepareArguments (exampleThunk 2)) =
     Some \<lparr>SelfMetadata = Some (Argument 10), SelfWitnessTable = Some (Argument 11)\<rparr> \<and>
   map_option errorResult (prepareArguments (exampleThunk 2)) = Some (Some (Argument 9)) \<and>
   map_option indirectReturnSlot (prepareArguments (exampleThunk 2)) = Some (Some (Argument 1)) \<and>
   map_option params (prepareArguments (exampleThunk 2)) =
     Some [Argument 0, Argument 2, LoadAsTake 7 (Argument 3),
           MapFromNative 8 [Argument 4, Argument 5], Argument 6, Argument 7]"
proof -
  note ex = example_sync_thunk
  have widths: "list_all2 (\<lambda>p vs. length vs = nativeWidth p)
      (butlast (getParameters (origTy (exampleThunk 2))))
      [[Argument 3], [Argument 4, Argument 5], [Argument 6]]"
    by (simp add: ex nativeWidth_def example_defs)
  have lay: "collectParameters (IGF (exampleThunk 2)) =
      (if isCoroutine (exampleThunk 2) then [Argument 0] else []) @
      (if requiresIndirect (nativeReturnValueSchema (origTy (exampleThunk 2)))
       then [Argument 1] else []) @
      [Argument 2] @ concat [[Argument 3], [Argument 4, Argument 5], [Argument 6]] @
      [Argument 7] @ [Argument 8] @
      (if hasErrorResult (origTy (exampleThunk 2)) then [Argument 9] else []) @
      (if isWitnessMethod (exampleThunk 2) then [Argument 10, Argument 11] else [])"
    by (simp add: ex)
  have ires: "length [Argument 2] = getNumIndirectSILResults (origTy (exampleThunk 2))"
    by (simp add: ex)
  from sync_arguments_stripped_in_order[OF _ lay ires widths] ex
  obtain t' where t': "prepareArguments (exampleThunk 2) = Some t'"
    and f: "witnessMetadata t' =
        \<lparr>SelfMetadata = Some (Argument 10), SelfWitnessTable = Some (Argument 11)\<rparr>"
      "errorResult t' = Some (Argument 9)" "selfValue t' = Some (Argument 8)"
      "indirectReturnSlot t' = Some (Argument 1)"
    and ps: "params t' = params (exampleThunk 2) @ [Argument 0] @ [Argument 2] @
       concat (map2 marshalParameter (butlast (getParameters (origTy (exampleThunk 2))))
         [[Argument 3], [Argument 4, Argument 5], [Argument 6]]) @ [Argument 7]"
    by auto
  have "params t' = [Argument 0, Argument 2, LoadAsTake 7 (Argument 3),
           MapFromNative 8 [Argument 4, Argument 5], Argument 6, Argument 7]"
    unfolding ps by (simp add: ex marshalParameter_def example_defs)
  with t' f show ?thesis by simp
qed

lemma example_class_thunk_prepared:
  "map_option params (prepareArguments (exampleThunk 3)) =
     Some [Argument 0, LoadAsTake 7 (Argument 1)]"
  by (simp add: exampleThunk_def emit_defs example_defs)

lemma example_class_thunk_as_claimed:
  "map_option params (prepareArgumentsSyncAsClaimed (exampleThunk 3)) =
     Some [LoadAsTake 7 (Argument 0), Argument 1]"
  by (simp add: exampleThunk_def prepareArgumentsSyncAsClaimed_def emit_defs example_defs)

text \<open>
  The claim C5 as stated fails: it has the declared parameters marshalled right after the
  return destination, and the source first hands on the addresses of the function's
  indirect results. For a class method with one indirect result and one parameter passed
  indirectly, the source hands on the first value untouched and loads the parameter from
  the second; the order of the claim loads the parameter from the first value.
\<close>

theorem sync_arguments_not_as_claimed:
  "map_option params (prepareArguments (exampleThunk 3)) =
     Some [Argument 0, LoadAsTake 7 (Argument 1)] \<and>
   map_option params (prepareArgumentsSyncAsClaimed (exampleThunk 3)) =
     Some [LoadAsTake 7 (Argument 0), Argument 1] \<and>
   prepareArguments (exampleThunk 3) \<noteq> prepareArgumentsSyncAsClaimed (exampleThunk 3)"
proof -
  have "map_option params (prepareArguments (exampleThunk 3)) \<noteq>
        map_option params (prepareArgumentsSyncAsClaimed (exampleThunk 3))"
    by (simp add: example_class_thunk_prepared example_class_thunk_as_claimed)
  then have "prepareArguments (exampleThunk 3) \<noteq> prepareArgumentsSyncAsClaimed (exampleThunk 3)"
    by auto
  with example_class_thunk_prepared example_class_thunk_as_claimed show ?thesis by simp
qed

lemma example_async_thunk:
  "isAsync (exampleThunk 1) \<and> asyncLayout (exampleThunk 1) = Some exampleLayout \<and>
   \<not> isCoroutine (exampleThunk 1) \<and> isWitnessMethod (exampleThunk 1) \<and>
   hasErrorResult (origTy (exampleThunk 1)) \<and> Builder (IGF (exampleThunk 1)) = [] \<and>
   params (exampleThunk 1) = []"
  by (simp add: exampleThunk_def emit_defs example_defs)

text \<open>
  C6, as amended. On the asynchronous path (the thunk is not a coroutine, its layout has
  a local context and, for a protocol requirement, trailing witnesses) argument
  preparation succeeds and takes the address of the fields of the context frame in this
  order: the local context; for a protocol requirement the self metadata, then the self
  witness table; the error slot, when the function type has an error result; every
  indirect return in index order; every argument in index order; the bindings, when the
  layout has them. It loads each of them but two: the error slot is not loaded, its
  address in the frame is installed as the caller's error slot; the bindings are not
  loaded, their address is handed to the bindings' \<^verbatim>\<open>save\<close> together with the argument
  stream. The receiver is the loaded local context, the witness metadata the two loaded
  witness fields, the argument stream the loaded indirect returns followed by the loaded
  arguments, as \<^verbatim>\<open>save\<close> leaves it. The error result and the indirect return slot, which
  the other path fills, are left as they were.
\<close>

theorem async_arguments_loaded_in_order:
  assumes "isAsync t" and "asyncLayout t = Some L" and "\<not> isCoroutine t"
    and "hasLocalContext L" and "isWitnessMethod t \<longrightarrow> hasTrailingWitnesses L"
  shows "\<exists>t'. prepareArguments t = Some t' \<and>
     projectedFields (drop (length (Builder (IGF t))) (Builder (IGF t'))) =
       asyncFieldOrder (isWitnessMethod t) (hasErrorResult (origTy t)) L \<and>
     loadedFields (drop (length (Builder (IGF t))) (Builder (IGF t'))) =
       asyncFieldOrder (isWitnessMethod t) False (L\<lparr>hasBindings := False\<rparr>) \<and>
     (hasBindings L \<longrightarrow>
        last (Builder (IGF t')) =
          SaveBindings (Project BindingsLayout AsyncContext)
            (params t @ map (\<lambda>i. loaded (IndirectReturnLayout i)) [0 ..< getIndirectReturnCount L] @
             map (\<lambda>i. loaded (ArgumentLayout i)) [0 ..< getArgumentCount L])) \<and>
     selfValue t' = Some (loaded LocalContextLayout) \<and>
     witnessMetadata t' =
       (if isWitnessMethod t then
          \<lparr>SelfMetadata = Some (loaded SelfMetadataLayout),
           SelfWitnessTable = Some (loaded SelfWitnessTableLayout)\<rparr>
        else witnessMetadata t) \<and>
     CallerErrorResultSlot (IGF t') =
       (if hasErrorResult (origTy t) then Some (Project ErrorLayout AsyncContext)
        else CallerErrorResultSlot (IGF t)) \<and>
     params t' =
       (if hasBindings L then bindingsSave L (Project BindingsLayout AsyncContext) else id)
         (params t @ map (\<lambda>i. loaded (IndirectReturnLayout i)) [0 ..< getIndirectReturnCount L] @
          map (\<lambda>i. loaded (ArgumentLayout i)) [0 ..< getArgumentCount L]) \<and>
     errorResult t' = errorResult t \<and> indirectReturnSlot t' = indirectReturnSlot t"
proof -
  from prepareArgumentsAsync_closed[OF assms(2-5)] obtain t' where
    p: "prepareArgumentsAsync t = Some t'" and
    b: "Builder (IGF t') = Builder (IGF t) @
       [EmitCastTo, ProjectField LocalContextLayout, CreateLoad (Project LocalContextLayout AsyncContext)] @
       (if isWitnessMethod t then
          [EmitCastTo, ProjectField SelfMetadataLayout, CreateLoad (Project SelfMetadataLayout AsyncContext),
           ProjectField SelfWitnessTableLayout, CreateLoad (Project SelfWitnessTableLayout AsyncContext)]
        else []) @
       (if hasErrorResult (origTy t) then [ProjectField ErrorLayout] else []) @
       concat (map (\<lambda>i. [ProjectField (IndirectReturnLayout i), CreateLoad (Project (IndirectReturnLayout i) AsyncContext)])
         [0 ..< getIndirectReturnCount L]) @
       concat (map (\<lambda>i. [ProjectField (ArgumentLayout i), CreateLoad (Project (ArgumentLayout i) AsyncContext)])
         [0 ..< getArgumentCount L]) @
       (if hasBindings L then
          [ProjectField BindingsLayout,
           SaveBindings (Project BindingsLayout AsyncContext)
             (params t @ map (\<lambda>i. loaded (IndirectReturnLayout i)) [0 ..< getIndirectReturnCount L] @
              map (\<lambda>i. loaded (ArgumentLayout i)) [0 ..< getArgumentCount L])]
        else [])" and
    r: "selfValue t' = Some (loaded LocalContextLayout)"
       "witnessMetadata t' =
         (if isWitnessMethod t then
            \<lparr>SelfMetadata = Some (loaded SelfMetadataLayout),
             SelfWitnessTable = Some (loaded SelfWitnessTableLayout)\<rparr>
          else witnessMetadata t)"
       "CallerErrorResultSlot (IGF t') =
         (if hasErrorResult (origTy t) then Some (Project ErrorLayout AsyncContext)
          else CallerErrorResultSlot (IGF t))"
       "params t' =
         (if hasBindings L then bindingsSave L (Project BindingsLayout AsyncContext) else id)
           (params t @ map (\<lambda>i. loaded (IndirectReturnLayout i)) [0 ..< getIndirectReturnCount L] @
            map (\<lambda>i. loaded (ArgumentLayout i)) [0 ..< getArgumentCount L])"
       "errorResult t' = errorResult t" "indirectReturnSlot t' = indirectReturnSlot t"
    by blast
  have pf: "projectedFields (drop (length (Builder (IGF t))) (Builder (IGF t'))) =
       asyncFieldOrder (isWitnessMethod t) (hasErrorResult (origTy t)) L"
    unfolding b
    by (simp add: asyncFieldOrder_def projectedFields_append projectedFields_loads)
  have lf: "loadedFields (drop (length (Builder (IGF t))) (Builder (IGF t'))) =
       asyncFieldOrder (isWitnessMethod t) False (L\<lparr>hasBindings := False\<rparr>)"
    unfolding b
    by (simp add: asyncFieldOrder_def loadedFields_append loadedFields_loads)
  have sv: "hasBindings L \<Longrightarrow> last (Builder (IGF t')) =
          SaveBindings (Project BindingsLayout AsyncContext)
            (params t @ map (\<lambda>i. loaded (IndirectReturnLayout i)) [0 ..< getIndirectReturnCount L] @
             map (\<lambda>i. loaded (ArgumentLayout i)) [0 ..< getArgumentCount L])"
    unfolding b by simp
  from p assms(1) have "prepareArguments t = Some t'" by (simp add: prepareArguments_def)
  with pf lf sv r show ?thesis by blast
qed

theorem async_arguments_loaded_in_order_witness:
  "map_option (projectedFields \<circ> Builder \<circ> IGF) (prepareArguments (exampleThunk 1)) =
     Some [LocalContextLayout, SelfMetadataLayout, SelfWitnessTableLayout, ErrorLayout,
           IndirectReturnLayout 0, ArgumentLayout 0, ArgumentLayout 1, BindingsLayout] \<and>
   map_option (loadedFields \<circ> Builder \<circ> IGF) (prepareArguments (exampleThunk 1)) =
     Some [LocalContextLayout, SelfMetadataLayout, SelfWitnessTableLayout,
           IndirectReturnLayout 0, ArgumentLayout 0, ArgumentLayout 1] \<and>
   map_option params (prepareArguments (exampleThunk 1)) =
     Some [loaded (IndirectReturnLayout 0), loaded (ArgumentLayout 0), loaded (ArgumentLayout 1)] \<and>
   map_option selfValue (prepareArguments (exampleThunk 1)) =
     Some (Some (loaded LocalContextLayout)) \<and>
   map_option (CallerErrorResultSlot \<circ> IGF) (prepareArguments (exampleThunk 1)) =
     Some (Some (Project ErrorLayout AsyncContext)) \<and>
   map_option errorResult (prepareArguments (exampleThunk 1)) = Some None \<and>
   map_option indirectReturnSlot (prepareArguments (exampleThunk 1)) = Some None"
proof -
  note ex = example_async_thunk
  have l: "hasLocalContext exampleLayout"
    "isWitnessMethod (exampleThunk 1) \<longrightarrow> hasTrailingWitnesses exampleLayout"
    by (simp_all add: exampleLayout_def)
  have unset: "errorResult (exampleThunk 1) = None" "indirectReturnSlot (exampleThunk 1) = None"
    "CallerErrorResultSlot (IGF (exampleThunk 1)) = None"
    by (simp_all add: exampleThunk_def emit_defs example_defs)
  from async_arguments_loaded_in_order[of "exampleThunk 1" exampleLayout] ex l
  obtain t' where t': "prepareArguments (exampleThunk 1) = Some t'"
    and pf: "projectedFields (drop (length (Builder (IGF (exampleThunk 1)))) (Builder (IGF t'))) =
       asyncFieldOrder (isWitnessMethod (exampleThunk 1))
         (hasErrorResult (origTy (exampleThunk 1))) exampleLayout"
    and lf: "loadedFields (drop (length (Builder (IGF (exampleThunk 1)))) (Builder (IGF t'))) =
       asyncFieldOrder (isWitnessMethod (exampleThunk 1)) False
         (exampleLayout\<lparr>hasBindings := False\<rparr>)"
    and sv: "selfValue t' = Some (loaded LocalContextLayout)"
    and ps: "params t' =
       (if hasBindings exampleLayout
        then bindingsSave exampleLayout (Project BindingsLayout AsyncContext) else id)
         (params (exampleThunk 1) @
          map (\<lambda>i. loaded (IndirectReturnLayout i)) [0 ..< getIndirectReturnCount exampleLayout] @
          map (\<lambda>i. loaded (ArgumentLayout i)) [0 ..< getArgumentCount exampleLayout])"
    and ce: "CallerErrorResultSlot (IGF t') =
       (if hasErrorResult (origTy (exampleThunk 1)) then Some (Project ErrorLayout AsyncContext)
        else CallerErrorResultSlot (IGF (exampleThunk 1)))"
    and er: "errorResult t' = errorResult (exampleThunk 1)"
    and ir: "indirectReturnSlot t' = indirectReturnSlot (exampleThunk 1)"
    by blast
  from pf lf ps have
    "projectedFields (Builder (IGF t')) =
       [LocalContextLayout, SelfMetadataLayout, SelfWitnessTableLayout, ErrorLayout,
        IndirectReturnLayout 0, ArgumentLayout 0, ArgumentLayout 1, BindingsLayout]"
    "loadedFields (Builder (IGF t')) =
       [LocalContextLayout, SelfMetadataLayout, SelfWitnessTableLayout,
        IndirectReturnLayout 0, ArgumentLayout 0, ArgumentLayout 1]"
    "params t' =
       [loaded (IndirectReturnLayout 0), loaded (ArgumentLayout 0), loaded (ArgumentLayout 1)]"
    by (simp_all add: ex[simplified] asyncFieldOrder_def exampleLayout_def upt_rec)
  moreover from ce ex have "CallerErrorResultSlot (IGF t') = Some (Project ErrorLayout AsyncContext)"
    by simp
  ultimately show ?thesis using t' sv er ir unset by simp
qed

lemma example_async_thunk_prepared:
  "map_option (loadedFields \<circ> Builder \<circ> IGF) (prepareArguments (exampleThunk 1)) =
     Some [LocalContextLayout, SelfMetadataLayout, SelfWitnessTableLayout,
           IndirectReturnLayout 0, ArgumentLayout 0, ArgumentLayout 1]"
  "map_option (CallerErrorResultSlot \<circ> IGF) (prepareArguments (exampleThunk 1)) =
     Some (Some (Project ErrorLayout AsyncContext))"
  "map_option errorResult (prepareArguments (exampleThunk 1)) = Some None"
  by (simp_all add: exampleThunk_def emit_defs example_defs)

lemma example_async_thunk_as_claimed:
  "map_option (loadedFields \<circ> Builder \<circ> IGF) (prepareArgumentsAsyncAsClaimed (exampleThunk 1)) =
     Some [LocalContextLayout, SelfMetadataLayout, SelfWitnessTableLayout, ErrorLayout,
           IndirectReturnLayout 0, ArgumentLayout 0, ArgumentLayout 1, BindingsLayout]"
  "map_option (CallerErrorResultSlot \<circ> IGF) (prepareArgumentsAsyncAsClaimed (exampleThunk 1)) =
     Some (Some (Load (Project ErrorLayout AsyncContext)))"
  "map_option errorResult (prepareArgumentsAsyncAsClaimed (exampleThunk 1)) =
     Some (Some (Load (Project ErrorLayout AsyncContext)))"
  by (simp_all add: exampleThunk_def prepareArgumentsAsyncAsClaimed_def emit_defs example_defs)

lemma example_sync_thunk_error_result:
  "map_option errorResult (prepareArguments (exampleThunk 0)) = Some (Some (Argument 8))"
  by (simp add: exampleThunk_def emit_defs example_defs)

text \<open>
  The claim C6 as stated fails: it has every field of its list loaded from the frame and
  the record fed as on the other path. For the asynchronous protocol requirement of the
  example, whose function type has an error result and whose layout has bindings, the
  source loads neither the error slot nor the bindings: the caller's error slot is the
  address of the field in the frame, not a value loaded from it. And the source leaves
  the error result unset, which the other path sets for the synchronous variant of the
  same requirement.
\<close>

theorem async_arguments_not_as_claimed:
  "map_option (loadedFields \<circ> Builder \<circ> IGF) (prepareArguments (exampleThunk 1)) =
     Some [LocalContextLayout, SelfMetadataLayout, SelfWitnessTableLayout,
           IndirectReturnLayout 0, ArgumentLayout 0, ArgumentLayout 1] \<and>
   map_option (loadedFields \<circ> Builder \<circ> IGF) (prepareArgumentsAsyncAsClaimed (exampleThunk 1)) =
     Some [LocalContextLayout, SelfMetadataLayout, SelfWitnessTableLayout, ErrorLayout,
           IndirectReturnLayout 0, ArgumentLayout 0, ArgumentLayout 1, BindingsLayout] \<and>
   map_option (CallerErrorResultSlot \<circ> IGF) (prepareArguments (exampleThunk 1)) =
     Some (Some (Project ErrorLayout AsyncContext)) \<and>
   map_option (CallerErrorResultSlot \<circ> IGF) (prepareArgumentsAsyncAsClaimed (exampleThunk 1)) =
     Some (Some (Load (Project ErrorLayout AsyncContext))) \<and>
   map_option errorResult (prepareArguments (exampleThunk 1)) = Some None \<and>
   map_option errorResult (prepareArguments (exampleThunk 0)) = Some (Some (Argument 8)) \<and>
   prepareArguments (exampleThunk 1) \<noteq> prepareArgumentsAsyncAsClaimed (exampleThunk 1)"
proof -
  have "map_option errorResult (prepareArguments (exampleThunk 1)) \<noteq>
        map_option errorResult (prepareArgumentsAsyncAsClaimed (exampleThunk 1))"
    unfolding example_async_thunk_prepared(3) example_async_thunk_as_claimed(3) by simp
  then have "prepareArguments (exampleThunk 1) \<noteq> prepareArgumentsAsyncAsClaimed (exampleThunk 1)"
    by auto
  with example_async_thunk_prepared example_async_thunk_as_claimed
    example_sync_thunk_error_result
  show ?thesis by blast
qed

section \<open>The emitted thunk\<close>

lemma getAddrOfLLVMVariable_declared:
  assumes "wellFormedVars m" "getAddrOfLLVMVariable entity None m = (var, m0)"
  shows "wellFormedVars m0 \<and> GlobalVars m0 entity = Some var \<and>
         Functions m0 = Functions m \<and> GlobalFuncs m0 = GlobalFuncs m \<and> Types m0 = Types m"
  using assms
  by (auto simp: getAddrOfLLVMVariable_def wellFormedVars_def nth_append less_Suc_eq
      split: option.splits if_splits)

lemma defineAsyncFunctionPointer_published:
  assumes "wellFormedVars m" "GlobalVars m (forAsyncFunctionPointer entity) = Some var"
  shows "defineAsyncFunctionPointer entity init m =
           (var, m\<lparr>Variables := (Variables m)
              [var := \<lparr>varName = forAsyncFunctionPointer entity, varInitializer = Some init,
                       varConstant = True\<rparr>]\<rparr>)"
proof -
  from assms have v: "var < length (Variables m)"
    and n: "varName (Variables m ! var) = forAsyncFunctionPointer entity"
    by (auto simp: wellFormedVars_def)
  have "(Variables m ! var)\<lparr>varInitializer := Some init, varConstant := True\<rparr> =
      \<lparr>varName = forAsyncFunctionPointer entity, varInitializer = Some init,
       varConstant = True\<rparr>"
    using n by (cases "Variables m ! var") simp
  with assms v show ?thesis
    by (simp add: defineAsyncFunctionPointer_def getAddrOfLLVMVariable_def
        setTrueConstGlobal_def Let_def)
qed

lemma defineAsyncFunctionPointer_fresh:
  assumes "GlobalVars m (forAsyncFunctionPointer entity) = None"
  shows "defineAsyncFunctionPointer entity init m =
           (length (Variables m),
            m\<lparr>GlobalVars := (GlobalVars m)(forAsyncFunctionPointer entity \<mapsto> length (Variables m)),
              Variables := Variables m @
                [\<lparr>varName = forAsyncFunctionPointer entity, varInitializer = Some init,
                  varConstant = True\<rparr>]\<rparr>)"
  using assms
  by (simp add: defineAsyncFunctionPointer_def getAddrOfLLVMVariable_def
      setTrueConstGlobal_def Let_def)

lemma emitAsyncEntry_published:
  assumes wf: "wellFormedVars (IGM (IGF t))"
    and var: "GlobalVars (IGM (IGF t)) (forAsyncFunctionPointer (forDispatchThunk (declRef t))) = Some var"
    and async: "isAsync t" and layout: "asyncLayout t = Some L"
  shows "\<exists>t1. emitAsyncEntry t = Some t1 \<and> sameMethod t (t1\<lparr>IGF := (IGF t1)\<lparr>IGM := IGM (IGF t)\<rparr>\<rparr>) \<and>
      GlobalVars (IGM (IGF t1)) (forAsyncFunctionPointer (forDispatchThunk (declRef t))) = Some var \<and>
      var < length (Variables (IGM (IGF t1))) \<and>
      Variables (IGM (IGF t1)) ! var =
        \<lparr>varName = forAsyncFunctionPointer (forDispatchThunk (declRef t)),
         varInitializer = Some \<lparr>initFunction = CurFn (IGF t), initSize = getSize L\<rparr>,
         varConstant = True\<rparr> \<and>
      Builder (IGF t1) = Builder (IGF t) @ [SetupAsync, AsyncFunctionEntry (forDispatchThunk (declRef t))]"
proof -
  from wf var have v: "var < length (Variables (IGM (IGF t)))"
    by (auto simp: wellFormedVars_def)
  show ?thesis
    using async layout v var
    by (simp add: emitAsyncEntry_def emitAsyncFunctionPointer_def
        defineAsyncFunctionPointer_published[OF wf var] thunk_update_defs sameMethod_def Let_def)
qed

lemma prepareArguments_marshalled:
  "prepareArguments t = Some t' \<Longrightarrow> marshalled t t'"
  by (auto simp: prepareArguments_def prepareArgumentsSync_marshalled
      prepareArgumentsAsync_marshalled split: if_splits)

lemma emit_rest_keeps_module:
  assumes "prepareArguments t1 = Some t2" "emitCallAndReturn t2 = Some t3"
  shows "IGM (IGF t3) = IGM (IGF t1)"
  using prepareArguments_marshalled[OF assms(1)] emitCallAndReturn_sameMethod[OF assms(2)]
  by (simp add: marshalled_def sameMethod_def)








lemma claimIndirectReturnSlot_sameReceiver:
  "claimIndirectReturnSlot (orig, t) = Some (orig', t') \<Longrightarrow> sameReceiver t t'"
  by (auto simp: claimIndirectReturnSlot_def sameReceiver_def split: if_splits Option.bind_splits)

lemma transferIndirectResults_sameReceiver:
  "transferIndirectResults (orig, t) = Some (orig', t') \<Longrightarrow> sameReceiver t t'"
  by (auto simp: transferIndirectResults_def sameReceiver_def split: if_splits Option.bind_splits)

lemma prepareParameter_sameReceiver:
  "prepareParameter p (orig, t) = Some (orig', t') \<Longrightarrow> sameReceiver t t'"
  by (auto simp: prepareParameter_def sameReceiver_def thunk_update_defs Let_def
      split: if_splits Option.bind_splits)

lemma prepareParameters_sameReceiver:
  "prepareParameters ps (orig, t) = Some (orig', t') \<Longrightarrow> sameReceiver t t'"
proof (induction ps arbitrary: orig t)
  case Nil
  then show ?case by (simp add: sameReceiver_def)
next
  case (Cons p ps)
  from Cons.prems obtain o1 t1 where
    a: "prepareParameter p (orig, t) = Some (o1, t1)" and
    b: "prepareParameters ps (o1, t1) = Some (orig', t')"
    by (auto split: Option.bind_splits)
  from prepareParameter_sameReceiver[OF a] Cons.IH[OF b] show ?case
    by (simp add: sameReceiver_def)
qed

lemma takeWitnessMetadata_taken:
  assumes "takeWitnessMetadata (xs, t) = Some (o1, t1)"
  shows "o1 = (if isWitnessMethod t then butlast (butlast xs) else xs) \<and>
         (isWitnessMethod t \<longrightarrow> 2 \<le> length xs \<and>
            witnessMetadata t1 =
              \<lparr>SelfMetadata = Some (xs ! (length xs - 2)), SelfWitnessTable = Some (last xs)\<rparr>)"
proof (cases "isWitnessMethod t")
  case False
  with assms show ?thesis by (simp add: takeWitnessMetadata_def)
next
  case True
  with assms have ne: "xs \<noteq> []" "butlast xs \<noteq> []"
    and o1: "o1 = butlast (butlast xs)"
    and wm: "witnessMetadata t1 =
      \<lparr>SelfMetadata = Some (last (butlast xs)), SelfWitnessTable = Some (last xs)\<rparr>"
    by (auto simp: takeWitnessMetadata_def takeLast_def split: if_splits Option.bind_splits)
  from ne have len: "2 \<le> length xs"
    by (cases xs rule: rev_cases) (auto simp: Suc_le_eq)
  then have "last (butlast xs) = xs ! (length xs - 2)"
    using ne by (simp add: last_conv_nth nth_butlast eval_nat_numeral)
  with True o1 wm len show ?thesis by simp
qed

lemma takeErrorResult_taken:
  assumes "takeErrorResult (xs, t) = Some (o1, t1)"
  shows "o1 = (if hasErrorResult (origTy t) then butlast xs else xs) \<and>
         (hasErrorResult (origTy t) \<longrightarrow> 0 < length xs) \<and> witnessMetadata t1 = witnessMetadata t"
  using assms
  by (auto simp: takeErrorResult_def takeLast_def thunk_update_defs
      split: if_splits Option.bind_splits)

lemma transferCoroutineBuffer_taken:
  assumes "transferCoroutineBuffer (xs, t) = Some (o1, t1)"
  shows "o1 = (if isCoroutine t then drop 1 xs else xs) \<and> witnessMetadata t1 = witnessMetadata t"
  using assms
  by (auto simp: transferCoroutineBuffer_def transferInto_def
      split: if_splits Option.bind_splits)

lemma takeSelf_taken:
  assumes "takeSelf (xs, t) = Some (o1, t1)"
  shows "0 < length xs \<and> selfValue t1 = Some (last xs) \<and> witnessMetadata t1 = witnessMetadata t"
  using assms
  by (auto simp: takeSelf_def takeLast_def split: if_splits Option.bind_splits)

lemma last_drop_1: "0 < length (drop 1 xs) \<Longrightarrow> last (drop 1 xs) = last xs"
  by (cases xs) auto

lemma last_butlast_nth:
  "0 < length (butlast xs) \<Longrightarrow> last (butlast xs) = xs ! (length xs - 2)"
  by (simp add: last_conv_nth nth_butlast eval_nat_numeral flip: length_greater_0_conv)

lemma last_butlast3_nth:
  "0 < length (butlast (butlast (butlast xs))) \<Longrightarrow>
     last (butlast (butlast (butlast xs))) = xs ! (length xs - 4)"
  by (simp add: last_conv_nth nth_butlast eval_nat_numeral flip: length_greater_0_conv)

lemma last_butlast2_nth:
  "0 < length (butlast (butlast xs)) \<Longrightarrow>
     last (butlast (butlast xs)) = xs ! (length xs - 3)"
  by (simp add: last_conv_nth nth_butlast eval_nat_numeral flip: length_greater_0_conv)

lemma prepareArgumentsSync_receiver:
  assumes "prepareArgumentsSync t = Some t'"
  shows "(if isWitnessMethod t then 2 else 0) + (if hasErrorResult (origTy t) then 1 else 0)
           < length (collectParameters (IGF t)) \<and>
         selfValue t' =
           Some (collectParameters (IGF t) !
                   (length (collectParameters (IGF t)) - 1 -
                    ((if isWitnessMethod t then 2 else 0) +
                     (if hasErrorResult (origTy t) then 1 else 0)))) \<and>
         (isWitnessMethod t \<longrightarrow>
            witnessMetadata t' =
              \<lparr>SelfMetadata =
                 Some (collectParameters (IGF t) ! (length (collectParameters (IGF t)) - 2)),
               SelfWitnessTable = Some (last (collectParameters (IGF t)))\<rparr>)"
proof -
  let ?xs = "collectParameters (IGF t)"
  from assms obtain o1 t1 o2 t2 o3 t3 o4 t4 o5 t5 o6 t6 o7 t7 where
    s1: "takeWitnessMetadata (?xs, t) = Some (o1, t1)" and
    s2: "takeErrorResult (o1, t1) = Some (o2, t2)" and
    s3: "transferCoroutineBuffer (o2, t2) = Some (o3, t3)" and
    s4: "takeSelf (o3, t3) = Some (o4, t4)" and
    s5: "claimIndirectReturnSlot (o4, t4) = Some (o5, t5)" and
    s6: "transferIndirectResults (o5, t5) = Some (o6, t6)" and
    s7: "prepareParameters (butlast (getParameters (origTy t6))) (o6, t6) = Some (o7, t7)" and
    s8: "t' = passAlong (o7, t7)"
    by (auto simp: prepareArgumentsSync_def split: Option.bind_splits)
  have later: "selfValue t' = selfValue t4 \<and> witnessMetadata t' = witnessMetadata t4"
    using claimIndirectReturnSlot_sameReceiver[OF s5] transferIndirectResults_sameReceiver[OF s6]
      prepareParameters_sameReceiver[OF s7]
    by (simp add: s8 sameReceiver_def passAlong_def claimAll_def thunk_update_defs)
  have e1: "hasErrorResult (origTy t1) = hasErrorResult (origTy t)"
    using takeWitnessMetadata_marshalled[OF s1] by (simp add: marshalled_def sameMethod_def)
  note a1 = takeWitnessMetadata_taken[OF s1]
  note a2 = takeErrorResult_taken[OF s2, unfolded e1]
  note a3 = transferCoroutineBuffer_taken[OF s3]
  note a4 = takeSelf_taken[OF s4]
  from a1 a2 a3 a4 have o3: "0 < length o3" and sv: "selfValue t4 = Some (last o3)"
    and wm: "witnessMetadata t4 = witnessMetadata t1" by simp_all
  have o2: "0 < length o2" using a3 o3 by (auto split: if_splits)
  have l3: "last o3 = last o2"
    using a3 o3 by (auto simp: last_drop_1 split: if_splits)
  have pos: "(if isWitnessMethod t then 2 else 0) + (if hasErrorResult (origTy t) then 1 else 0)
           < length ?xs \<and>
        last o2 = ?xs ! (length ?xs - 1 -
                    ((if isWitnessMethod t then 2 else 0) +
                     (if hasErrorResult (origTy t) then 1 else 0)))"
  proof (cases "isWitnessMethod t")
    case w: True
    show ?thesis
    proof (cases "hasErrorResult (origTy t)")
      case True
      with w a1 a2 have "o2 = butlast (butlast (butlast ?xs))" by simp
      with o2 last_butlast3_nth[of ?xs] w True show ?thesis by (simp add: eval_nat_numeral)
    next
      case False
      with w a1 a2 have "o2 = butlast (butlast ?xs)" by simp
      with o2 last_butlast2_nth[of ?xs] w False show ?thesis by (simp add: eval_nat_numeral)
    qed
  next
    case w: False
    show ?thesis
    proof (cases "hasErrorResult (origTy t)")
      case True
      with w a1 a2 have "o2 = butlast ?xs" by simp
      with o2 last_butlast_nth[of ?xs] w True show ?thesis by (simp add: eval_nat_numeral)
    next
      case False
      with w a1 a2 have "o2 = ?xs" by simp
      with o2 w False show ?thesis by (simp add: last_conv_nth)
    qed
  qed
  with later sv wm l3 a1 show ?thesis by simp
qed

lemma prepareArgumentsAsync_success:
  assumes "prepareArgumentsAsync t = Some t'"
  shows "\<exists>L. asyncLayout t = Some L \<and> \<not> isCoroutine t \<and> hasLocalContext L \<and>
             (isWitnessMethod t \<longrightarrow> hasTrailingWitnesses L)"
  using assms
  by (auto simp: prepareArgumentsAsync_def loadLocalContext_def loadWitnessMetadata_def Let_def
      loadContextField_def thunk_update_defs
      split: if_splits Option.bind_splits prod.splits)

lemma prepareArgumentsAsync_receiver:
  assumes "prepareArgumentsAsync t = Some t'"
  shows "selfValue t' = Some (loaded LocalContextLayout) \<and>
         (isWitnessMethod t \<longrightarrow>
            witnessMetadata t' =
              \<lparr>SelfMetadata = Some (loaded SelfMetadataLayout),
               SelfWitnessTable = Some (loaded SelfWitnessTableLayout)\<rparr>)"
proof -
  from prepareArgumentsAsync_success[OF assms] obtain L where
    L: "asyncLayout t = Some L" "\<not> isCoroutine t" "hasLocalContext L"
       "isWitnessMethod t \<longrightarrow> hasTrailingWitnesses L" by blast
  from prepareArgumentsAsync_closed[OF L] assms show ?thesis by auto
qed

lemma lookupMethod_target:
  assumes "lookupMethod t = Some (callee, t')"
  shows "selfValue t = Some (calleeSelf callee) \<and>
     (isWitnessMethod t \<longrightarrow>
        (\<exists>wtable. SelfWitnessTable (witnessMetadata t) = Some wtable \<and>
           calleeFunction callee = WitnessMethodValue wtable (declRef t) \<and>
           Builder (IGF t') = Builder (IGF t) @ [EmitWitnessMethodValue wtable (declRef t)])) \<and>
     (\<not> isWitnessMethod t \<longrightarrow>
        calleeFunction callee =
          VirtualMethodValue
            (if selfIsMetatype (origTy t) then calleeSelf callee
             else HeapMetadataRefForHeapObject (calleeSelf callee)) (declRef t) \<and>
        Builder (IGF t') = Builder (IGF t) @
          (if selfIsMetatype (origTy t) then [] else [EmitHeapMetadataRef (calleeSelf callee)]) @
          [EmitVirtualMethodValue
             (if selfIsMetatype (origTy t) then calleeSelf callee
              else HeapMetadataRefForHeapObject (calleeSelf callee)) (declRef t)])"
  using assms
  by (auto simp: lookupMethod_def thunk_update_defs Let_def split: if_splits Option.bind_splits)

lemma emitAsyncEntry_fresh:
  assumes var: "GlobalVars (IGM (IGF t)) (forAsyncFunctionPointer (forDispatchThunk (declRef t))) = None"
    and async: "isAsync t" and layout: "asyncLayout t = Some L"
  shows "\<exists>t1. emitAsyncEntry t = Some t1 \<and>
      GlobalVars (IGM (IGF t1)) (forAsyncFunctionPointer (forDispatchThunk (declRef t))) =
        Some (length (Variables (IGM (IGF t)))) \<and>
      length (Variables (IGM (IGF t))) < length (Variables (IGM (IGF t1))) \<and>
      Variables (IGM (IGF t1)) ! length (Variables (IGM (IGF t))) =
        \<lparr>varName = forAsyncFunctionPointer (forDispatchThunk (declRef t)),
         varInitializer = Some \<lparr>initFunction = CurFn (IGF t), initSize = getSize L\<rparr>,
         varConstant = True\<rparr> \<and>
      Builder (IGF t1) = Builder (IGF t) @ [SetupAsync, AsyncFunctionEntry (forDispatchThunk (declRef t))]"
  using async layout var
  by (simp add: emitAsyncEntry_def emitAsyncFunctionPointer_def
      defineAsyncFunctionPointer_fresh[OF var] thunk_update_defs Let_def)

lemma getAddrOfAsyncFunctionPointer_entry:
  "GlobalVars (snd (getAddrOfAsyncFunctionPointer entity m)) (forAsyncFunctionPointer entity) =
     Some (fst (getAddrOfAsyncFunctionPointer entity m))"
  by (simp add: getAddrOfAsyncFunctionPointer_def getAddrOfLLVMVariable_def split: option.splits)

lemma getAddrOfAsyncFunctionPointer_existing:
  "GlobalVars m (forAsyncFunctionPointer entity) = Some var \<Longrightarrow>
     getAddrOfAsyncFunctionPointer entity m = (var, m)"
  by (simp add: getAddrOfAsyncFunctionPointer_def getAddrOfLLVMVariable_def)

lemma emit_after_entry:
  "emitAsyncEntry t = Some t1 \<Longrightarrow> emit t = Option.bind (prepareArguments t1) emitCallAndReturn"
  by (simp add: emit_def)

text \<open>
  C9. For an asynchronous thunk in a module whose \<^verbatim>\<open>GlobalVars\<close> entries point to its
  variables, the entry of the emission succeeds and publishes the async function pointer
  record of the thunk: a variable named for the thunk's entity, constant, whose
  initializer holds the function and the size of the async context layout. An address
  taken for the record before the emission is the address of the published record, and
  \<^verbatim>\<open>getAddrOfAsyncFunctionPointer\<close> returns it afterwards. At that point the function
  holds the async entry only, none of the instructions of argument preparation, call or
  return; the rest of the emission runs on the result and does not change the module.
\<close>

theorem async_function_pointer_published_at_entry:
  assumes "wellFormedVars (IGM (IGF t))" and "isAsync t" and "asyncLayout t = Some L"
  shows "\<exists>t1 var. emitAsyncEntry t = Some t1 \<and>
      GlobalVars (IGM (IGF t1)) (forAsyncFunctionPointer (forDispatchThunk (declRef t))) = Some var \<and>
      var < length (Variables (IGM (IGF t1))) \<and>
      Variables (IGM (IGF t1)) ! var =
        \<lparr>varName = forAsyncFunctionPointer (forDispatchThunk (declRef t)),
         varInitializer = Some \<lparr>initFunction = CurFn (IGF t), initSize = getSize L\<rparr>,
         varConstant = True\<rparr> \<and>
      (\<forall>v. GlobalVars (IGM (IGF t)) (forAsyncFunctionPointer (forDispatchThunk (declRef t))) = Some v
         \<longrightarrow> v = var) \<and>
      fst (getAddrOfAsyncFunctionPointer (forDispatchThunk (declRef t)) (IGM (IGF t1))) = var \<and>
      Builder (IGF t1) =
        Builder (IGF t) @ [SetupAsync, AsyncFunctionEntry (forDispatchThunk (declRef t))] \<and>
      (\<forall>t2 t3. prepareArguments t1 = Some t2 \<longrightarrow> emitCallAndReturn t2 = Some t3 \<longrightarrow>
         IGM (IGF t3) = IGM (IGF t1)) \<and>
      emit t = Option.bind (prepareArguments t1) emitCallAndReturn"
proof (cases "GlobalVars (IGM (IGF t)) (forAsyncFunctionPointer (forDispatchThunk (declRef t)))")
  case None
  from emitAsyncEntry_fresh[OF None assms(2,3)] obtain t1 where
    e: "emitAsyncEntry t = Some t1" and
    r: "GlobalVars (IGM (IGF t1)) (forAsyncFunctionPointer (forDispatchThunk (declRef t))) =
        Some (length (Variables (IGM (IGF t))))"
      "length (Variables (IGM (IGF t))) < length (Variables (IGM (IGF t1)))"
      "Variables (IGM (IGF t1)) ! length (Variables (IGM (IGF t))) =
        \<lparr>varName = forAsyncFunctionPointer (forDispatchThunk (declRef t)),
         varInitializer = Some \<lparr>initFunction = CurFn (IGF t), initSize = getSize L\<rparr>,
         varConstant = True\<rparr>"
      "Builder (IGF t1) = Builder (IGF t) @ [SetupAsync, AsyncFunctionEntry (forDispatchThunk (declRef t))]"
    by blast
  from r(1) have adr: "fst (getAddrOfAsyncFunctionPointer (forDispatchThunk (declRef t)) (IGM (IGF t1))) =
      length (Variables (IGM (IGF t)))"
    by (simp add: getAddrOfAsyncFunctionPointer_existing)
  have same: "\<forall>v. GlobalVars (IGM (IGF t)) (forAsyncFunctionPointer (forDispatchThunk (declRef t))) = Some v
         \<longrightarrow> v = length (Variables (IGM (IGF t)))"
    by (simp add: None)
  have keep: "\<forall>t2 t3. prepareArguments t1 = Some t2 \<longrightarrow> emitCallAndReturn t2 = Some t3 \<longrightarrow>
         IGM (IGF t3) = IGM (IGF t1)"
    using emit_rest_keeps_module by blast
  from e r(1) r(2) r(3) same adr r(4) keep emit_after_entry[OF e] show ?thesis by blast
next
  case (Some var)
  from emitAsyncEntry_published[OF assms(1) Some assms(2,3)] obtain t1 where
    e: "emitAsyncEntry t = Some t1" and
    r: "GlobalVars (IGM (IGF t1)) (forAsyncFunctionPointer (forDispatchThunk (declRef t))) = Some var"
      "var < length (Variables (IGM (IGF t1)))"
      "Variables (IGM (IGF t1)) ! var =
        \<lparr>varName = forAsyncFunctionPointer (forDispatchThunk (declRef t)),
         varInitializer = Some \<lparr>initFunction = CurFn (IGF t), initSize = getSize L\<rparr>,
         varConstant = True\<rparr>"
      "Builder (IGF t1) = Builder (IGF t) @ [SetupAsync, AsyncFunctionEntry (forDispatchThunk (declRef t))]"
    by blast
  from r(1) have adr: "fst (getAddrOfAsyncFunctionPointer (forDispatchThunk (declRef t)) (IGM (IGF t1))) = var"
    by (simp add: getAddrOfAsyncFunctionPointer_existing)
  have same: "\<forall>v. GlobalVars (IGM (IGF t)) (forAsyncFunctionPointer (forDispatchThunk (declRef t))) = Some v
         \<longrightarrow> v = var"
    by (simp add: Some)
  have keep: "\<forall>t2 t3. prepareArguments t1 = Some t2 \<longrightarrow> emitCallAndReturn t2 = Some t3 \<longrightarrow>
         IGM (IGF t3) = IGM (IGF t1)"
    using emit_rest_keeps_module by blast
  from e r(1) r(2) r(3) same adr r(4) keep emit_after_entry[OF e] show ?thesis by blast
qed

lemma example_declared_thunk:
  "wellFormedVars (IGM (IGF exampleDeclaredThunk)) \<and> isAsync exampleDeclaredThunk \<and>
   asyncLayout exampleDeclaredThunk = Some exampleLayout \<and>
   declRef exampleDeclaredThunk = 1 \<and> CurFn (IGF exampleDeclaredThunk) = 0 \<and>
   GlobalVars (IGM (IGF exampleDeclaredThunk)) (forAsyncFunctionPointer (forDispatchThunk 1)) = Some 0 \<and>
   Variables (IGM (IGF exampleDeclaredThunk)) =
     [\<lparr>varName = forAsyncFunctionPointer (forDispatchThunk 1), varInitializer = None,
       varConstant = False\<rparr>]"
  by (simp add: exampleDeclaredThunk_def wellFormedVars_def getAddrOfAsyncFunctionPointer_def
      emit_defs example_defs)

lemma example_declared_thunk_emitted: "emit exampleDeclaredThunk \<noteq> None"
  by (simp add: exampleDeclaredThunk_def getAddrOfAsyncFunctionPointer_def emit_defs example_defs)

theorem async_function_pointer_published_at_entry_witness:
  "wellFormedVars (IGM (IGF exampleDeclaredThunk)) \<and>
   fst (getAddrOfAsyncFunctionPointer (forDispatchThunk 1) (IGM (IGF exampleDeclaredThunk))) = 0 \<and>
   map_option (\<lambda>t1. Variables (IGM (IGF t1)) ! 0) (emitAsyncEntry exampleDeclaredThunk) =
     Some \<lparr>varName = forAsyncFunctionPointer (forDispatchThunk 1),
           varInitializer = Some \<lparr>initFunction = 0, initSize = 64\<rparr>, varConstant = True\<rparr> \<and>
   map_option (\<lambda>t1. Builder (IGF t1)) (emitAsyncEntry exampleDeclaredThunk) =
     Some [SetupAsync, AsyncFunctionEntry (forDispatchThunk 1)] \<and>
   map_option (\<lambda>t3. Variables (IGM (IGF t3)) ! 0) (emit exampleDeclaredThunk) =
     Some \<lparr>varName = forAsyncFunctionPointer (forDispatchThunk 1),
           varInitializer = Some \<lparr>initFunction = 0, initSize = 64\<rparr>, varConstant = True\<rparr>"
proof -
  note ex = example_declared_thunk
  from ex have wf: "wellFormedVars (IGM (IGF exampleDeclaredThunk))"
    and as: "isAsync exampleDeclaredThunk"
    and la: "asyncLayout exampleDeclaredThunk = Some exampleLayout" by simp_all
  from async_function_pointer_published_at_entry[OF wf as la]
  obtain t1 var where
    e: "emitAsyncEntry exampleDeclaredThunk = Some t1" and
    v: "Variables (IGM (IGF t1)) ! var =
        \<lparr>varName = forAsyncFunctionPointer (forDispatchThunk (declRef exampleDeclaredThunk)),
         varInitializer = Some \<lparr>initFunction = CurFn (IGF exampleDeclaredThunk),
           initSize = getSize exampleLayout\<rparr>,
         varConstant = True\<rparr>" and
    same: "\<forall>v. GlobalVars (IGM (IGF exampleDeclaredThunk))
        (forAsyncFunctionPointer (forDispatchThunk (declRef exampleDeclaredThunk))) = Some v
         \<longrightarrow> v = var" and
    b: "Builder (IGF t1) = Builder (IGF exampleDeclaredThunk) @
        [SetupAsync, AsyncFunctionEntry (forDispatchThunk (declRef exampleDeclaredThunk))]" and
    keep: "\<forall>t2 t3. prepareArguments t1 = Some t2 \<longrightarrow> emitCallAndReturn t2 = Some t3 \<longrightarrow>
         IGM (IGF t3) = IGM (IGF t1)" and
    em: "emit exampleDeclaredThunk = Option.bind (prepareArguments t1) emitCallAndReturn"
    by blast
  from same ex have var: "var = 0" by simp
  have b0: "Builder (IGF exampleDeclaredThunk) = []"
    by (simp add: exampleDeclaredThunk_def newIRGenThunk_def newIRGenFunction_def Let_def)
  from example_declared_thunk_emitted em obtain t2 t3 where
    p: "prepareArguments t1 = Some t2" and c: "emitCallAndReturn t2 = Some t3"
    by (auto split: Option.bind_splits)
  from keep p c have k: "IGM (IGF t3) = IGM (IGF t1)" by blast
  have e3: "emit exampleDeclaredThunk = Some t3" by (simp add: em p c)
  have a0: "fst (getAddrOfAsyncFunctionPointer (forDispatchThunk 1) (IGM (IGF exampleDeclaredThunk))) = 0"
    using ex by (simp add: getAddrOfAsyncFunctionPointer_existing)
  have v0: "Variables (IGM (IGF t1)) ! 0 =
      \<lparr>varName = forAsyncFunctionPointer (forDispatchThunk 1),
       varInitializer = Some \<lparr>initFunction = 0, initSize = 64\<rparr>, varConstant = True\<rparr>"
    using v ex by (simp add: var exampleLayout_def)
  have b1: "Builder (IGF t1) = [SetupAsync, AsyncFunctionEntry (forDispatchThunk 1)]"
    using b ex by (simp add: b0)
  show ?thesis using wf a0 by (simp add: e e3 k v0 b1)
qed

section \<open>Call, return and target resolution\<close>






text \<open>
  C7. A thunk dispatches through a witness table exactly when the declaring context of
  its method is a protocol. After argument preparation, target resolution pairs the
  callable with the receiver: the loaded local context of an asynchronous thunk, and
  otherwise the incoming value that precedes the error slot and the witness metadata at
  the tail. For a protocol requirement the callable is the witness method value of the
  method reference in the receiver's witness table (the loaded self witness table field,
  or the last incoming value). For a class method it is the virtual method value of the
  method reference in the class metadata, which is the receiver itself when the storage
  type of \<^verbatim>\<open>self\<close> is a metatype and the heap metadata of the receiver object otherwise.
\<close>

theorem target_resolved_by_declaring_context:
  assumes "prepareArguments t = Some t1" and "lookupMethod t1 = Some (callee, t2)"
  shows "isWitnessMethod (newIRGenThunk igf ref) = declContextIsProtocol (IGM igf) ref \<and>
     calleeSelf callee =
       (if isAsync t then loaded LocalContextLayout
        else collectParameters (IGF t) !
               (length (collectParameters (IGF t)) - 1 - trailingValues t)) \<and>
     (isWitnessMethod t \<longrightarrow>
        calleeFunction callee =
          WitnessMethodValue
            (if isAsync t then loaded SelfWitnessTableLayout else last (collectParameters (IGF t)))
            (declRef t) \<and>
        Builder (IGF t2) = Builder (IGF t1) @
          [EmitWitnessMethodValue
             (if isAsync t then loaded SelfWitnessTableLayout else last (collectParameters (IGF t)))
             (declRef t)]) \<and>
     (\<not> isWitnessMethod t \<longrightarrow>
        calleeFunction callee =
          VirtualMethodValue
            (if selfIsMetatype (origTy t) then calleeSelf callee
             else HeapMetadataRefForHeapObject (calleeSelf callee)) (declRef t) \<and>
        Builder (IGF t2) = Builder (IGF t1) @
          (if selfIsMetatype (origTy t) then [] else [EmitHeapMetadataRef (calleeSelf callee)]) @
          [EmitVirtualMethodValue
             (if selfIsMetatype (origTy t) then calleeSelf callee
              else HeapMetadataRefForHeapObject (calleeSelf callee)) (declRef t)])"
proof -
  from prepareArguments_marshalled[OF assms(1)] have
    st: "isWitnessMethod t1 = isWitnessMethod t" "declRef t1 = declRef t" "origTy t1 = origTy t"
    by (simp_all add: marshalled_def sameMethod_def)
  have rc: "selfValue t1 =
       Some (if isAsync t then loaded LocalContextLayout
             else collectParameters (IGF t) !
                    (length (collectParameters (IGF t)) - 1 - trailingValues t)) \<and>
     (isWitnessMethod t \<longrightarrow>
        SelfWitnessTable (witnessMetadata t1) =
          Some (if isAsync t then loaded SelfWitnessTableLayout
                else last (collectParameters (IGF t))))"
  proof (cases "isAsync t")
    case True
    with assms(1) have "prepareArgumentsAsync t = Some t1" by (simp add: prepareArguments_def)
    from prepareArgumentsAsync_receiver[OF this] True show ?thesis by simp
  next
    case False
    with assms(1) have "prepareArgumentsSync t = Some t1" by (simp add: prepareArguments_def)
    from prepareArgumentsSync_receiver[OF this] False show ?thesis
      by (simp add: trailingValues_def)
  qed
  have w: "isWitnessMethod (newIRGenThunk igf ref) = declContextIsProtocol (IGM igf) ref"
    by (simp add: newIRGenThunk_def Let_def)
  from lookupMethod_target[OF assms(2)] rc w show ?thesis
    by (auto simp: st)
qed

lemma example_protocol_target: "Option.bind (prepareArguments (exampleThunk 2)) lookupMethod \<noteq> None"
  by (simp add: exampleThunk_def emit_defs example_defs)

lemma example_class_target: "Option.bind (prepareArguments (exampleThunk 3)) lookupMethod \<noteq> None"
  by (simp add: exampleThunk_def emit_defs example_defs)

lemma example_class_thunk:
  "\<not> isAsync (exampleThunk 3) \<and> \<not> isWitnessMethod (exampleThunk 3) \<and>
   \<not> hasErrorResult (origTy (exampleThunk 3)) \<and> \<not> selfIsMetatype (origTy (exampleThunk 3)) \<and>
   declRef (exampleThunk 3) = 3 \<and>
   collectParameters (IGF (exampleThunk 3)) = map Argument [0, 1, 2]"
  by (simp add: exampleThunk_def emit_defs example_defs)

theorem target_resolved_by_declaring_context_witness:
  "map_option fst (Option.bind (prepareArguments (exampleThunk 2)) lookupMethod) =
     Some \<lparr>calleeFunction = WitnessMethodValue (Argument 11) 2, calleeSelf = Argument 8\<rparr> \<and>
   map_option fst (Option.bind (prepareArguments (exampleThunk 3)) lookupMethod) =
     Some \<lparr>calleeFunction = VirtualMethodValue (HeapMetadataRefForHeapObject (Argument 2)) 3,
           calleeSelf = Argument 2\<rparr>"
proof -
  from example_protocol_target obtain p2 c2 q2 where
    a2: "prepareArguments (exampleThunk 2) = Some p2" and b2: "lookupMethod p2 = Some (c2, q2)"
    by (auto split: Option.bind_splits)
  from example_class_target obtain p3 c3 q3 where
    a3: "prepareArguments (exampleThunk 3) = Some p3" and b3: "lookupMethod p3 = Some (c3, q3)"
    by (auto split: Option.bind_splits)
  have d2: "declRef (exampleThunk 2) = 2"
    by (simp add: exampleThunk_def newIRGenThunk_def Let_def)
  from target_resolved_by_declaring_context[OF a2 b2] example_sync_thunk d2
  have "calleeSelf c2 = Argument 8 \<and> calleeFunction c2 = WitnessMethodValue (Argument 11) 2"
    by (simp add: trailingValues_def)
  then have r2: "c2 = \<lparr>calleeFunction = WitnessMethodValue (Argument 11) 2, calleeSelf = Argument 8\<rparr>"
    by (cases c2) simp
  from target_resolved_by_declaring_context[OF a3 b3] example_class_thunk
  have "calleeSelf c3 = Argument 2 \<and>
      calleeFunction c3 = VirtualMethodValue (HeapMetadataRefForHeapObject (Argument 2)) 3"
    by (simp add: trailingValues_def)
  then have r3: "c3 = \<lparr>calleeFunction = VirtualMethodValue (HeapMetadataRefForHeapObject (Argument 2)) 3,
      calleeSelf = Argument 2\<rparr>"
    by (cases c3) simp
  show ?thesis by (simp add: a2 b2 a3 b3 r2 r3)
qed

section \<open>The invariants of the module\<close>

text \<open>
  Both invariants hold of a module with empty tables, and the operations of the file keep
  them: a module reached from empty tables through these operations satisfies the
  hypotheses of the theorems above.
\<close>

lemma wellFormed_empty: "GlobalFuncs m = Map.empty \<Longrightarrow> wellFormed m"
  by (simp add: wellFormed_def)

lemma wellFormedVars_empty: "GlobalVars m = Map.empty \<Longrightarrow> wellFormedVars m"
  by (simp add: wellFormedVars_def)

lemma wellFormedVars_getAddrOfLLVMVariable:
  assumes "wellFormedVars m"
  shows "wellFormedVars (snd (getAddrOfLLVMVariable entity init m))"
  using assms
  by (auto simp: getAddrOfLLVMVariable_def wellFormedVars_def nth_append less_Suc_eq
      nth_list_update split: option.splits if_splits)

lemma wellFormedVars_defineAsyncFunctionPointer:
  assumes "wellFormedVars m"
  shows "wellFormedVars (snd (defineAsyncFunctionPointer entity init m))"
proof -
  obtain var m' where g: "getAddrOfLLVMVariable (forAsyncFunctionPointer entity) (Some init) m = (var, m')"
    by (cases "getAddrOfLLVMVariable (forAsyncFunctionPointer entity) (Some init) m")
  from wellFormedVars_getAddrOfLLVMVariable[OF assms, of "forAsyncFunctionPointer entity" "Some init"] g
  have "wellFormedVars m'" by simp
  have wf': "wellFormedVars m'" by fact
  have same: "varName ((Variables m')[var := (Variables m' ! var)\<lparr>varConstant := True\<rparr>] ! v) =
      varName (Variables m' ! v)" if "v < length (Variables m')" for v
    using that by (cases "v = var") simp_all
  from wf' same have "wellFormedVars (setTrueConstGlobal var m')"
    by (auto simp: setTrueConstGlobal_def wellFormedVars_def)
  with g show ?thesis by (simp add: defineAsyncFunctionPointer_def)
qed

lemma wellFormedVars_functions:
  "GlobalVars m' = GlobalVars m \<Longrightarrow> Variables m' = Variables m \<Longrightarrow>
     wellFormedVars m' = wellFormedVars m"
  by (simp add: wellFormedVars_def)

lemma wellFormed_variables:
  "GlobalFuncs m' = GlobalFuncs m \<Longrightarrow> Functions m' = Functions m \<Longrightarrow>
     wellFormed m' = wellFormed m"
  by (simp add: wellFormed_def)

lemma getAddrOfDispatchThunk_variables:
  "GlobalVars (snd (getAddrOfDispatchThunk ref fd m)) = GlobalVars m \<and>
   Variables (snd (getAddrOfDispatchThunk ref fd m)) = Variables m"
  by (cases "GlobalFuncs m (forDispatchThunk ref)")
     (simp_all add: getAddrOfDispatchThunk_existing getAddrOfDispatchThunk_new
        updateLinkageForDefinition_def)

lemma emitAsyncEntry_wellFormedVars:
  assumes "emitAsyncEntry t = Some t1" "wellFormedVars (IGM (IGF t))"
  shows "wellFormedVars (IGM (IGF t1))"
  using assms wellFormedVars_defineAsyncFunctionPointer[OF assms(2)]
  by (auto simp: emitAsyncEntry_def emitAsyncFunctionPointer_def thunk_update_defs Let_def
      split: if_splits Option.bind_splits)

lemma emit_wellFormedVars:
  assumes "emit t = Some t'" "wellFormedVars (IGM (IGF t))"
  shows "wellFormedVars (IGM (IGF t'))"
proof -
  from assms(1) obtain t1 t2 where
    a: "emitAsyncEntry t = Some t1" and b: "prepareArguments t1 = Some t2" and
    c: "emitCallAndReturn t2 = Some t'"
    by (auto simp: emit_def split: Option.bind_splits)
  from emit_rest_keeps_module[OF b c] emitAsyncEntry_wellFormedVars[OF a assms(2)]
  show ?thesis by simp
qed

lemma wellFormedVars_emitDispatchThunk:
  assumes "wellFormedVars m" "emitDispatchThunk ref m = Some m1"
  shows "wellFormedVars m1"
proof -
  obtain f m0 where g: "getAddrOfDispatchThunk ref ForDefinition m = (f, m0)"
    by (cases "getAddrOfDispatchThunk ref ForDefinition m")
  have wf0: "wellFormedVars m0"
    using getAddrOfDispatchThunk_variables[of ref ForDefinition m] g assms(1)
    by (simp add: wellFormedVars_def)
  show ?thesis
  proof (cases "isDeclaration (Functions m0 ! f)")
    case False
    with assms(2) g wf0 show ?thesis by (simp add: emitDispatchThunk_def)
  next
    case True
    with assms(2) g obtain t where
      t: "emit (newIRGenThunk (newIRGenFunction m0 f) ref) = Some t" and
      m1: "m1 = (IGM (IGF t))\<lparr>Functions := (Functions (IGM (IGF t)))
             [f := (Functions (IGM (IGF t)) ! f)\<lparr>fnBody := Some (Builder (IGF t))\<rparr>]\<rparr>"
      by (auto simp: emitDispatchThunk_def Let_def split: Option.bind_splits)
    have "wellFormedVars (IGM (IGF t))"
      using emit_wellFormedVars[OF t] wf0
      by (simp add: newIRGenThunk_def newIRGenFunction_def Let_def)
    then show ?thesis unfolding m1 by (simp add: wellFormedVars_def)
  qed
qed

lemma wellFormed_emitMethodLookupFunction:
  assumes wf: "wellFormed m" and wfv: "wellFormedVars m"
    and e: "emitMethodLookupFunction classDecl m = Some m1"
  shows "wellFormed m1 \<and> wellFormedVars m1"
proof (cases "definedBody m (forMethodLookupFunction classDecl)")
  case None
  from emitMethodLookupFunction_defined[OF wf wfv None e] show ?thesis by blast
next
  case (Some body)
  obtain f m0 where g: "getAddrOfMethodLookupFunction classDecl ForDefinition m = (f, m0)"
    by (cases "getAddrOfMethodLookupFunction classDecl ForDefinition m")
  note r = getAddrOfMethodLookupFunction_result[OF wf g]
  from r Some have "\<not> isDeclaration (Functions m0 ! f)" by (simp add: isDeclaration_def)
  with e g have "m1 = m0" by (auto simp: emitMethodLookupFunction_def split: if_splits)
  with r wfv show ?thesis by (simp add: wellFormedVars_def)
qed

end
